theory Spec2Isabelle
  imports Main
begin

section \<open>JavaScript values and exceptions\<close>

text \<open>
  Strings are lists of 8-bit characters: every string the program builds from digits,
  the decimal point and endpoint paths is ASCII, and the \<open>binary\<close> encoding used by the
  signer maps each character below 256 to one byte.

  An exception is a value. \<open>Error\<close> carries the message of a \<open>throw new Error(...)\<close>
  of the program; the other constructors are the exceptions raised by built-ins
  (\<open>BigInt\<close>, \<open>JSON.parse\<close>, a property read on \<open>undefined\<close>, a rejected
  \<open>fetch\<close>).
\<close>

datatype exn = Error string | SyntaxError | TypeError | RangeError | NetworkError

section \<open>Decimal strings and big integers (src/utils/bigint.ts)\<close>

subsection \<open>The built-ins the module calls\<close>

definition digit_char :: "nat \<Rightarrow> char" where
  "digit_char d = ''0123456789'' ! d"

text \<open>\<open>BigInt.prototype.toString()\<close>: decimal digits, most significant first, a minus
  sign in front of a negative value.\<close>

function digits :: "int \<Rightarrow> string" where
  "digits n = (if n < 10 then [digit_char (nat n)]
               else digits (n div 10) @ [digit_char (nat (n mod 10))])"
  by pat_completeness auto
termination
  by (relation "measure nat") auto

declare digits.simps [simp del]

definition bigint_toString :: "int \<Rightarrow> string" where
  "bigint_toString i = (if i < 0 then CHR ''-'' # digits (- i) else digits i)"

text \<open>\<open>String.prototype.padStart(n, c)\<close> and \<open>padEnd(n, c)\<close> with a one-character
  filler: a string already \<open>n\<close> long or longer is returned as it is.\<close>

definition padStart :: "string \<Rightarrow> nat \<Rightarrow> char \<Rightarrow> string" where
  "padStart s n c = replicate (n - length s) c @ s"

definition padEnd :: "string \<Rightarrow> nat \<Rightarrow> char \<Rightarrow> string" where
  "padEnd s n c = s @ replicate (n - length s) c"

text \<open>\<open>String.prototype.slice(start, end)\<close>: a negative index counts from the end of
  the string, every index is clamped to the string, and \<open>-0\<close> is \<open>0\<close>.\<close>

definition slice_index :: "nat \<Rightarrow> int \<Rightarrow> nat" where
  "slice_index len i = (if i < 0 then nat (max (int len + i) 0) else min (nat i) len)"

definition slice :: "string \<Rightarrow> int \<Rightarrow> int \<Rightarrow> string" where
  "slice s start end = (let from = slice_index (length s) start; to = slice_index (length s) end
     in take (to - from) (drop from s))"

definition slice_from :: "string \<Rightarrow> int \<Rightarrow> string" where
  "slice_from s start = drop (slice_index (length s) start) s"

text \<open>\<open>String.prototype.split(c)\<close> with a one-character separator: the pieces between
  the separators, never an empty array.\<close>

fun split :: "char \<Rightarrow> string \<Rightarrow> string list" where
  "split c [] = [[]]"
| "split c (x # xs) =
     (if x = c then [] # split c xs
      else (case split c xs of [] \<Rightarrow> [[x]] | p # ps \<Rightarrow> (x # p) # ps))"

text \<open>\<open>BigInt(string)\<close>: white space is trimmed; the empty string is 0; a prefix
  \<open>0x\<close>, \<open>0o\<close> or \<open>0b\<close> selects the radix and allows no sign; otherwise an optional
  sign and at least one decimal digit. Anything else is a \<open>SyntaxError\<close>.\<close>

definition is_ws :: "char \<Rightarrow> bool" where
  "is_ws c = (c \<in> set [CHR 0x09, CHR 0x0A, CHR 0x0B, CHR 0x0C, CHR 0x0D, CHR 0x20, CHR 0xA0])"

definition trim :: "string \<Rightarrow> string" where
  "trim s = rev (dropWhile is_ws (rev (dropWhile is_ws s)))"

definition digit_val :: "char \<Rightarrow> nat option" where
  "digit_val c = (let n = (of_char c :: nat) in
     if 48 \<le> n \<and> n \<le> 57 then Some (n - 48)
     else if 97 \<le> n \<and> n \<le> 102 then Some (n - 87)
     else if 65 \<le> n \<and> n \<le> 70 then Some (n - 55)
     else None)"

definition is_digit :: "nat \<Rightarrow> char \<Rightarrow> bool" where
  "is_digit radix c = (case digit_val c of None \<Rightarrow> False | Some d \<Rightarrow> d < radix)"

definition digits_value :: "nat \<Rightarrow> string \<Rightarrow> int" where
  "digits_value radix s = foldl (\<lambda>acc c. acc * int radix + int (the (digit_val c))) 0 s"

definition parse_digits :: "nat \<Rightarrow> string \<Rightarrow> exn + int" where
  "parse_digits radix s =
     (if s \<noteq> [] \<and> list_all (is_digit radix) s then Inr (digits_value radix s)
      else Inl SyntaxError)"

definition negate :: "exn + int \<Rightarrow> exn + int" where
  "negate r = (case r of Inl e \<Rightarrow> Inl e | Inr v \<Rightarrow> Inr (- v))"

definition BigInt :: "string \<Rightarrow> exn + int" where
  "BigInt s = (let t = trim s in
     if t = [] then Inr 0
     else if take 2 t \<in> set [''0x'', ''0X''] then parse_digits 16 (drop 2 t)
     else if take 2 t \<in> set [''0o'', ''0O''] then parse_digits 8 (drop 2 t)
     else if take 2 t \<in> set [''0b'', ''0B''] then parse_digits 2 (drop 2 t)
     else if hd t = CHR ''+'' then parse_digits 10 (tl t)
     else if hd t = CHR ''-'' then negate (parse_digits 10 (tl t))
     else parse_digits 10 t)"

subsection \<open>parseDecimalToBigInt and bigIntToDecimal\<close>

text \<open>
  \<^verbatim>\<open>const [whole = "0", fraction = ""] = value.split(".");\<close>
  takes the first two pieces; a default applies where the array has no such element.
  The scale is a natural number.
\<close>

definition parseDecimalToBigInt :: "string \<Rightarrow> nat \<Rightarrow> exn + int" where
  "parseDecimalToBigInt value decimals =
     (let parts = split CHR ''.'' value;
          whole = (case parts of [] \<Rightarrow> ''0'' | w # _ \<Rightarrow> w);
          fraction = (case parts of _ # f # _ \<Rightarrow> f | _ \<Rightarrow> '''');
          paddedFraction = slice (padEnd fraction decimals CHR ''0'') 0 (int decimals)
      in BigInt (whole @ paddedFraction))"

definition bigIntToDecimal :: "int \<Rightarrow> nat \<Rightarrow> string" where
  "bigIntToDecimal value decimals =
     (let str = padStart (bigint_toString value) (decimals + 1) CHR ''0'';
          w = slice str 0 (- int decimals);
          whole = (if w = [] then ''0'' else w);
          fraction = slice_from str (- int decimals)
      in whole @ ''.'' @ fraction)"

definition MINIMUM_USD_WITHDRAWAL :: int where
  "MINIMUM_USD_WITHDRAWAL = 100000"

section \<open>JavaScript numbers\<close>

text \<open>
  A number is an IEEE 754 double: a finite value \<open>m * 2^e\<close>, \<open>NaN\<close> or an infinity
  (the sign of a zero plays no part in what the program does with numbers). The result
  of an arithmetic operation is the double nearest to the exact result, a tie going to
  the even significand.

  \<open>double_of_ratio p q\<close> is the double nearest to \<open>p / q\<close> for \<open>p \<ge> 0\<close> and \<open>q > 0\<close>:
  \<open>ex\<close> is the exponent of the leading bit of \<open>p / q\<close>, the unit in the last place is
  \<open>2^u\<close> with \<open>u = ex - 52\<close> (not below \<open>-1074\<close>, where the subnormal numbers start), and
  the significand is \<open>p / q / 2^u\<close> rounded to an integer. A result of \<open>2^1024\<close> or more
  is \<open>Infinity\<close>.
\<close>

datatype jsnumber = Finite int int | NaN | PosInfinity | NegInfinity

function bitlen :: "int \<Rightarrow> int" where
  "bitlen n = (if n \<le> 0 then 0 else 1 + bitlen (n div 2))"
  by pat_completeness auto
termination
  by (relation "measure nat") auto

declare bitlen.simps [simp del]

definition pow2 :: "int \<Rightarrow> int" where
  "pow2 k = 2 ^ nat k"

definition round_half_even :: "int \<Rightarrow> int \<Rightarrow> int" where
  "round_half_even num den =
     (let qt = num div den; rm = num mod den
      in if 2 * rm < den then qt
         else if 2 * rm > den then qt + 1
         else if even qt then qt else qt + 1)"

definition double_of_ratio :: "int \<Rightarrow> int \<Rightarrow> jsnumber" where
  "double_of_ratio p q =
     (if p = 0 then Finite 0 0
      else let d = bitlen p - bitlen q;
               ex = (if (if 0 \<le> d then q * pow2 d \<le> p else q \<le> p * pow2 (- d)) then d else d - 1);
               u = max (ex - 52) (- 1074);
               mt = (if u \<le> 0 then round_half_even (p * pow2 (- u)) q
                     else round_half_even p (q * pow2 u))
           in if u > 971 \<or> (u = 971 \<and> mt \<ge> 9007199254740992) then PosInfinity
              else Finite mt u)"

definition negative :: "jsnumber \<Rightarrow> bool" where
  "negative x = (case x of Finite m e \<Rightarrow> m < 0 | NegInfinity \<Rightarrow> True | _ \<Rightarrow> False)"

definition is_zero :: "jsnumber \<Rightarrow> bool" where
  "is_zero x = (case x of Finite m e \<Rightarrow> m = 0 | _ \<Rightarrow> False)"

definition infinite :: "jsnumber \<Rightarrow> bool" where
  "infinite x = (x = PosInfinity \<or> x = NegInfinity)"

definition number_negate :: "jsnumber \<Rightarrow> jsnumber" where
  "number_negate x = (case x of
       Finite m e \<Rightarrow> Finite (- m) e
     | NaN \<Rightarrow> NaN
     | PosInfinity \<Rightarrow> NegInfinity
     | NegInfinity \<Rightarrow> PosInfinity)"

text \<open>The product \<open>a * b\<close> of two numbers.\<close>

definition number_times :: "jsnumber \<Rightarrow> jsnumber \<Rightarrow> jsnumber" where
  "number_times a b =
     (if a = NaN \<or> b = NaN then NaN
      else if infinite a \<or> infinite b
      then (if is_zero a \<or> is_zero b then NaN
            else if negative a \<noteq> negative b then NegInfinity else PosInfinity)
      else (case (a, b) of
              (Finite m1 e1, Finite m2 e2) \<Rightarrow>
                (let p = \<bar>m1 * m2\<bar>; e = e1 + e2;
                     r = (if 0 \<le> e then double_of_ratio (p * pow2 e) 1
                          else double_of_ratio p (pow2 (- e)))
                 in if m1 * m2 < 0 then number_negate r else r)
            | _ \<Rightarrow> NaN))"

text \<open>\<open>BigInt(number)\<close>: the value of an integral number, a \<open>RangeError\<close> on every
  other number.\<close>

definition number_to_BigInt :: "jsnumber \<Rightarrow> exn + int" where
  "number_to_BigInt x =
     (case x of
        Finite m e \<Rightarrow>
          if 0 \<le> e then Inr (m * pow2 e)
          else if m mod pow2 (- e) = 0 then Inr (m div pow2 (- e))
          else Inl RangeError
      | _ \<Rightarrow> Inl RangeError)"

text \<open>
  The nonce counter and the readings of \<open>Date.now()\<close> are numbers with integer values;
  they are held as integers. \<open>round_integer n\<close> is the double nearest to the integer
  \<open>n\<close>, which is what a sum with that exact value becomes when it is stored in a number.
\<close>

definition round_integer :: "int \<Rightarrow> int" where
  "round_integer n =
     (case double_of_ratio \<bar>n\<bar> 1 of
        Finite mt u \<Rightarrow> sgn n * (if 0 \<le> u then mt * pow2 u else mt div pow2 (- u))
      | _ \<Rightarrow> n)"

section \<open>Payload objects\<close>

text \<open>
  A payload field holds a string, a number or a boolean (or \<open>undefined\<close>, \<open>null\<close>).
  Numbers are the integers the program puts into payloads (nonces, user references);
  for an integer below \<open>10^21\<close> in magnitude \<open>String(n)\<close> is its decimal digits.
  An object is the list of its properties in insertion order; assigning an existing
  property keeps its place. The keys of the program's objects are field names, none of
  them an integer index (JavaScript lists integer indices first).
\<close>

datatype jsval = JUndefined | JNull | JBool bool | JNum int | JStr string

type_synonym object = "(string \<times> jsval) list"

datatype jsdata = Prim jsval | Obj object

definition obj_get :: "object \<Rightarrow> string \<Rightarrow> jsval" where
  "obj_get obj k = (case map_of obj k of None \<Rightarrow> JUndefined | Some v \<Rightarrow> v)"

definition obj_set :: "object \<Rightarrow> string \<Rightarrow> jsval \<Rightarrow> object" where
  "obj_set obj k v =
     (if k \<in> set (map fst obj) then map (\<lambda>(k', v'). if k' = k then (k', v) else (k', v')) obj
      else obj @ [(k, v)])"

text \<open>Object spread \<open>{ ...target, ...src }\<close>: every property of \<open>src\<close> is assigned in turn.\<close>

definition obj_spread :: "object \<Rightarrow> object \<Rightarrow> object" where
  "obj_spread target src = foldl (\<lambda>obj (k, v). obj_set obj k v) target src"

definition js_String :: "jsval \<Rightarrow> string" where
  "js_String v = (case v of
       JUndefined \<Rightarrow> ''undefined''
     | JNull \<Rightarrow> ''null''
     | JBool b \<Rightarrow> (if b then ''true'' else ''false'')
     | JNum n \<Rightarrow> bigint_toString n
     | JStr s \<Rightarrow> s)"

text \<open>\<open>Array.prototype.join(sep)\<close> on an array of strings.\<close>

fun join :: "string \<Rightarrow> string list \<Rightarrow> string" where
  "join sep [] = []"
| "join sep [x] = x"
| "join sep (x # y # ys) = x @ sep @ join sep (y # ys)"

section \<open>Request signing (src/utils/crypto.ts)\<close>

text \<open>
  The functions of the runtime's \<open>crypto\<close>, \<open>querystring\<close> and \<open>JSON\<close> modules are
  parameters: \<open>sha256 s\<close> is \<open>createHash("sha256").update(s).digest()\<close>,
  \<open>hmac_sha512 key msg\<close> is the digest of \<open>createHmac("sha512", key)\<close> after
  \<open>update(msg, "binary")\<close>, \<open>base64_decode\<close> is \<open>Buffer.from(s, "base64")\<close>,
  \<open>base64_encode\<close> the \<open>"base64"\<close> rendering of a digest, \<open>stringify\<close> is
  \<open>querystring.stringify\<close>, \<open>JSON_parse\<close> is \<open>JSON.parse\<close> with \<open>None\<close> for its
  \<open>SyntaxError\<close>. Byte sequences are strings, one character per byte.
\<close>

record runtime =
  sha256 :: "string \<Rightarrow> string"
  hmac_sha512 :: "string \<Rightarrow> string \<Rightarrow> string"
  base64_decode :: "string \<Rightarrow> string"
  base64_encode :: "string \<Rightarrow> string"
  stringify :: "object \<Rightarrow> string"
  JSON_parse :: "string \<Rightarrow> jsdata option"

text \<open>Reading \<open>.nonce\<close>: a \<open>TypeError\<close> on \<open>null\<close> and \<open>undefined\<close>, \<open>undefined\<close> on
  any other primitive, the property's value on an object (a parsed array is an object
  without that property).\<close>

definition get_nonce :: "jsdata \<Rightarrow> exn + jsval" where
  "get_nonce d = (case d of
       Obj obj \<Rightarrow> Inr (obj_get obj ''nonce'')
     | Prim v \<Rightarrow> (if v = JUndefined \<or> v = JNull then Inl TypeError else Inr JUndefined))"

text \<open>Lines 51 to 64 of the function: hash, concatenate, decode the secret, sign.\<close>

definition sign_encoded :: "runtime \<Rightarrow> string \<Rightarrow> string \<Rightarrow> string \<Rightarrow> string" where
  "sign_encoded rt urlPath encoded secret =
     (let sha256Hash = sha256 rt encoded;
          message = urlPath @ sha256Hash;
          secretBuffer = base64_decode rt secret
      in base64_encode rt (hmac_sha512 rt secretBuffer message))"

definition generateKrakenSignature :: "runtime \<Rightarrow> string \<Rightarrow> jsdata \<Rightarrow> string \<Rightarrow> exn + string" where
  "generateKrakenSignature rt urlPath data secret =
     (case data of
        Prim (JStr str) \<Rightarrow>
          (case JSON_parse rt str of
             None \<Rightarrow> Inl SyntaxError
           | Some jsonData \<Rightarrow>
               (case get_nonce jsonData of
                  Inl e \<Rightarrow> Inl e
                | Inr nonce \<Rightarrow>
                    if nonce = JUndefined then Inl (Error ''Nonce is required in data'')
                    else Inr (sign_encoded rt urlPath (js_String nonce @ str) secret)))
      | Obj obj \<Rightarrow>
          (if obj_get obj ''nonce'' = JUndefined
           then Inl (Error ''Nonce is required in data object'')
           else Inr (sign_encoded rt urlPath
                       (js_String (obj_get obj ''nonce'') @ stringify rt obj) secret))
      | Prim _ \<Rightarrow> Inl (Error ''Invalid data type: expected string or object''))"

section \<open>The client (src/client/KrakenClient.ts)\<close>

record KrakenClientConfig =
  apiKey :: string
  secret :: string
  baseUrl :: "string option"

record KrakenClient =
  this_apiKey :: string
  this_secret :: string
  this_baseUrl :: string
  nonceCounter :: int

datatype http_method = GET | POST

record RequestOptions =
  request_method :: "http_method option"
  body :: "object option"
  otp :: "string option"

text \<open>What \<open>fetch\<close> is called with, and what it resolves to. \<open>response.ok\<close> is true for a
  status from 200 to 299. \<open>json\<close> is the outcome of \<open>response.json()\<close> at the type the
  call site declares, \<^verbatim>\<open>{ error: string[]; result?: T }\<close>.\<close>

record http_request =
  url :: string
  init_method :: http_method
  init_headers :: "(string \<times> string) list"
  init_body :: "string option"

record 'a envelope =
  error :: "string list option"
  result :: "'a option"

record 'a http_response =
  status :: nat
  statusText :: string
  response_text :: string
  json :: "exn + 'a envelope"

definition ok :: "'a http_response \<Rightarrow> bool" where
  "ok response = (200 \<le> status response \<and> status response \<le> 299)"

text \<open>
  The world outside the program: \<open>ticks\<close> counts the readings of \<open>Date.now()\<close> made so
  far, \<open>sent\<close> is the log of the requests handed to \<open>fetch\<close>. The clock is a function
  from the index of a reading to milliseconds; a \<open>fetch\<close> at result type \<open>'a\<close> is a
  function from the index of the call and the request to a response or a rejection.
  Millisecond values are integers.
\<close>

record world =
  ticks :: nat
  sent :: "http_request list"

type_synonym clock = "nat \<Rightarrow> int"

type_synonym 'a fetch = "nat \<Rightarrow> http_request \<Rightarrow> exn + 'a http_response"

definition Date_now :: "clock \<Rightarrow> world \<Rightarrow> int \<times> world" where
  "Date_now now w = (now (ticks w), w\<lparr>ticks := Suc (ticks w)\<rparr>)"

definition do_fetch :: "'a fetch \<Rightarrow> http_request \<Rightarrow> world \<Rightarrow> (exn + 'a http_response) \<times> world" where
  "do_fetch fetch req w = (fetch (length (sent w)) req, w\<lparr>sent := sent w @ [req]\<rparr>)"

definition new_KrakenClient ::
  "clock \<Rightarrow> KrakenClientConfig \<Rightarrow> world \<Rightarrow> (exn + KrakenClient) \<times> world" where
  "new_KrakenClient now config w =
     (if apiKey config = [] then (Inl (Error ''API key is required''), w)
      else if secret config = [] then (Inl (Error ''Secret key is required''), w)
      else (let (t, w') = Date_now now w
            in (Inr \<lparr>this_apiKey = apiKey config, this_secret = secret config,
                     this_baseUrl = (case baseUrl config of None \<Rightarrow> ''https://api.kraken.com''
                                     | Some u \<Rightarrow> u),
                     nonceCounter = t\<rparr>, w')))"

definition generateNonce :: "clock \<Rightarrow> KrakenClient \<times> world \<Rightarrow> int \<times> KrakenClient \<times> world" where
  "generateNonce now s =
     (let (this, w) = s;
          (timestamp, w') = Date_now now w;
          this' = (if timestamp > nonceCounter this then this\<lparr>nonceCounter := timestamp\<rparr>
                   else this\<lparr>nonceCounter := round_integer (nonceCounter this + 1)\<rparr>)
      in (nonceCounter this', this', w'))"

text \<open>
  \<open>request\<close> in three parts. Lines 83 to 92 build the payload: the caller's body with
  the nonce assigned, then the one-time password when it is a non-empty string. Lines
  76 to 107 make the arguments of \<open>fetch\<close>. Lines 109 to 130 turn the outcome of
  \<open>fetch\<close> into the result of the call.
\<close>

definition build_payload :: "RequestOptions \<Rightarrow> int \<Rightarrow> object" where
  "build_payload options nonce =
     (let body0 = (case body options of None \<Rightarrow> [] | Some b \<Rightarrow> b);
          payload = obj_set body0 ''nonce'' (JNum nonce)
      in case otp options of
           None \<Rightarrow> payload
         | Some p \<Rightarrow> if p \<noteq> [] then obj_set payload ''otp'' (JStr p) else payload)"

definition prepare_request ::
  "runtime \<Rightarrow> clock \<Rightarrow> string \<Rightarrow> RequestOptions \<Rightarrow> KrakenClient \<times> world
     \<Rightarrow> (exn + http_request) \<times> KrakenClient \<times> world" where
  "prepare_request rt now endpoint options s =
     (let meth = (case request_method options of None \<Rightarrow> POST | Some m \<Rightarrow> m);
          (nonce, this, w) = generateNonce now s;
          payload = build_payload options nonce
      in case generateKrakenSignature rt endpoint (Obj payload) (this_secret this) of
           Inl e \<Rightarrow> (Inl e, this, w)
         | Inr signature \<Rightarrow>
            (let headers = [(''API-Key'', this_apiKey this), (''API-Sign'', signature),
                            (''Content-Type'', ''application/x-www-form-urlencoded'')];
                 formData = stringify rt payload
             in (Inr \<lparr>url = this_baseUrl this @ endpoint, init_method = meth,
                      init_headers = headers,
                      init_body = (if meth = POST then Some formData else None)\<rparr>,
                 this, w)))"

definition unwrap_response :: "exn + 'a http_response \<Rightarrow> exn + 'a option" where
  "unwrap_response fetched =
     (case fetched of
        Inl e \<Rightarrow> Inl e
      | Inr response \<Rightarrow>
          if \<not> ok response
          then Inl (Error (''Kraken API HTTP error: '' @ digits (int (status response))
                            @ '' '' @ statusText response @ '' - '' @ response_text response))
          else (case json response of
                  Inl e \<Rightarrow> Inl e
                | Inr data \<Rightarrow>
                    (case error data of
                       None \<Rightarrow> Inr (result data)
                     | Some errs \<Rightarrow>
                         if length errs > 0
                         then Inl (Error (''Kraken API error: '' @ join '', '' errs))
                         else Inr (result data))))"

definition request ::
  "runtime \<Rightarrow> clock \<Rightarrow> 'a fetch \<Rightarrow> string \<Rightarrow> RequestOptions \<Rightarrow> KrakenClient \<times> world
     \<Rightarrow> (exn + 'a option) \<times> KrakenClient \<times> world" where
  "request rt now fetch endpoint options s =
     (case prepare_request rt now endpoint options s of
        (Inl e, this, w) \<Rightarrow> (Inl e, this, w)
      | (Inr req, this, w) \<Rightarrow>
          (let (fetched, w') = do_fetch fetch req w
           in (unwrap_response fetched, this, w')))"


definition requested :: "string \<Rightarrow> KrakenClient \<times> world \<Rightarrow> KrakenClient \<times> world \<Rightarrow> bool" where
  "requested endpoint s s' =
     list_ex (\<lambda>req. url req = this_baseUrl (fst s) @ endpoint)
       (drop (length (sent (snd s))) (sent (snd s')))"

section \<open>Operations (src/api)\<close>

text \<open>\<open>await\<close>: an exception of the awaited call ends the caller, a value goes on.\<close>

definition await ::
  "(exn + 'a) \<times> 's \<Rightarrow> ('a \<Rightarrow> 's \<Rightarrow> (exn + 'b) \<times> 's) \<Rightarrow> (exn + 'b) \<times> 's" where
  "await m f = (case m of (Inl e, s) \<Rightarrow> (Inl e, s) | (Inr a, s) \<Rightarrow> f a s)"

type_synonym BalanceResponse = "string \<rightharpoonup> string"

record AddOrderResponse =
  descr_order :: string
  descr_close :: "string option"
  txid :: "string list option"

record WithdrawResponse =
  refid :: string

text \<open>The exchange: the clock and one \<open>fetch\<close> for each result type the program
  declares at its call sites.\<close>

record exchange =
  now :: clock
  fetchBalance :: "BalanceResponse fetch"
  fetchAddOrder :: "AddOrderResponse fetch"
  fetchWithdraw :: "WithdrawResponse fetch"

definition no_options :: RequestOptions where
  "no_options = \<lparr>request_method = None, body = None, otp = None\<rparr>"

definition getBalance ::
  "runtime \<Rightarrow> exchange \<Rightarrow> KrakenClient \<times> world
     \<Rightarrow> (exn + BalanceResponse option) \<times> KrakenClient \<times> world" where
  "getBalance rt ex s = request rt (now ex) (fetchBalance ex) ''/0/private/Balance'' no_options s"

text \<open>\<open>balance[asset] ?? "0.00000000"\<close>; reading a property of an absent result is a
  \<open>TypeError\<close>. The balances are the object's own properties: the assets the program
  asks for, \<open>USDC\<close> and \<open>ZUSD\<close>, are not names of inherited members.\<close>

definition getAssetBalance ::
  "runtime \<Rightarrow> exchange \<Rightarrow> string \<Rightarrow> KrakenClient \<times> world
     \<Rightarrow> (exn + string) \<times> KrakenClient \<times> world" where
  "getAssetBalance rt ex asset s =
     await (getBalance rt ex s) (\<lambda>balance s'.
       case balance of
         None \<Rightarrow> (Inl TypeError, s')
       | Some b \<Rightarrow> (Inr (case b asset of None \<Rightarrow> ''0.00000000'' | Some v \<Rightarrow> v), s'))"

definition placeOrder ::
  "runtime \<Rightarrow> exchange \<Rightarrow> object \<Rightarrow> KrakenClient \<times> world
     \<Rightarrow> (exn + AddOrderResponse option) \<times> KrakenClient \<times> world" where
  "placeOrder rt ex params s =
     request rt (now ex) (fetchAddOrder ex) ''/0/private/AddOrder''
       \<lparr>request_method = None, body = Some params, otp = None\<rparr> s"

definition sellUSDCToUSD ::
  "runtime \<Rightarrow> exchange \<Rightarrow> string \<Rightarrow> object \<Rightarrow> KrakenClient \<times> world
     \<Rightarrow> (exn + AddOrderResponse option) \<times> KrakenClient \<times> world" where
  "sellUSDCToUSD rt ex volume options s =
     placeOrder rt ex
       (obj_spread [(''type'', JStr ''sell''), (''ordertype'', JStr ''market''),
                    (''pair'', JStr ''USDCUSD''), (''volume'', JStr volume)] options) s"

definition withdraw ::
  "runtime \<Rightarrow> exchange \<Rightarrow> string \<Rightarrow> string \<Rightarrow> string \<Rightarrow> object \<Rightarrow> KrakenClient \<times> world
     \<Rightarrow> (exn + WithdrawResponse option) \<times> KrakenClient \<times> world" where
  "withdraw rt ex asset key amount options s =
     (let withdrawParams = obj_spread [(''asset'', JStr asset), (''key'', JStr key),
                                       (''amount'', JStr amount)] options
      in request rt (now ex) (fetchWithdraw ex) ''/0/private/Withdraw''
           \<lparr>request_method = None, body = Some withdrawParams, otp = None\<rparr> s)"

definition withdrawToMercury ::
  "runtime \<Rightarrow> exchange \<Rightarrow> string \<Rightarrow> object \<Rightarrow> KrakenClient \<times> world
     \<Rightarrow> (exn + WithdrawResponse option) \<times> KrakenClient \<times> world" where
  "withdrawToMercury rt ex amount options s = withdraw rt ex ''USD'' ''Mercury'' amount options s"

section \<open>Configuration (src/config.ts) and the entry point (src/index.ts)\<close>

record AppConfig =
  kraken :: KrakenClientConfig
  minimumWithdrawalUSD :: jsnumber
  usdWithdrawalKey :: string

definition validateConfig :: "AppConfig \<Rightarrow> exn + unit" where
  "validateConfig config =
     (if apiKey (kraken config) = [] \<or> secret (kraken config) = []
      then Inl (Error ''Kraken API credentials are required'')
      else if negative (minimumWithdrawalUSD config)
      then Inl (Error ''Minimum withdrawal amount must be positive'')
      else if usdWithdrawalKey config = []
      then Inl (Error ''USD withdrawal key is required'')
      else Inr ())"

text \<open>Step 1 and step 2 of \<open>main\<close>: query the USDC balance and sell it when it is positive.
  Reading \<open>orderResult.txid\<close> on an absent result is a \<open>TypeError\<close>.\<close>

definition checkAndSell ::
  "runtime \<Rightarrow> exchange \<Rightarrow> KrakenClient \<times> world \<Rightarrow> (exn + unit) \<times> KrakenClient \<times> world" where
  "checkAndSell rt ex s =
     await (getAssetBalance rt ex ''USDC'' s) (\<lambda>usdcBalance s1.
       case parseDecimalToBigInt usdcBalance 8 of
         Inl e \<Rightarrow> (Inl e, s1)
       | Inr usdcBalanceBigInt \<Rightarrow>
           if usdcBalanceBigInt > 0
           then await (sellUSDCToUSD rt ex usdcBalance [] s1) (\<lambda>orderResult s2.
                  case orderResult of
                    None \<Rightarrow> (Inl TypeError, s2)
                  | Some r \<Rightarrow> (Inr (), s2))
           else (Inr (), s1))"

text \<open>\<open>BigInt(config.minimumWithdrawalUSD * 10_000)\<close>, the minimum in base units.\<close>

definition minimumWithdrawal :: "AppConfig \<Rightarrow> exn + int" where
  "minimumWithdrawal config =
     number_to_BigInt (number_times (minimumWithdrawalUSD config) (Finite 10000 0))"

text \<open>Step 3 of \<open>main\<close>: query the USD balance and withdraw it when it reaches the
  minimum. Reading \<open>withdrawResult.refid\<close> on an absent result is a \<open>TypeError\<close>.\<close>

definition checkAndWithdraw ::
  "runtime \<Rightarrow> exchange \<Rightarrow> AppConfig \<Rightarrow> KrakenClient \<times> world
     \<Rightarrow> (exn + unit) \<times> KrakenClient \<times> world" where
  "checkAndWithdraw rt ex config s =
     await (getAssetBalance rt ex ''ZUSD'' s) (\<lambda>usdBalance s1.
       case parseDecimalToBigInt usdBalance 4 of
         Inl e \<Rightarrow> (Inl e, s1)
       | Inr usdBalanceBigInt \<Rightarrow>
           (case minimumWithdrawal config of
              Inl e \<Rightarrow> (Inl e, s1)
            | Inr minimum \<Rightarrow>
                if usdBalanceBigInt \<ge> minimum
                then await (withdrawToMercury rt ex usdBalance [] s1) (\<lambda>withdrawResult s2.
                       case withdrawResult of
                         None \<Rightarrow> (Inl TypeError, s2)
                       | Some r \<Rightarrow> (Inr (), s2))
                else (Inr (), s1)))"

text \<open>
  \<open>main\<close>: \<open>loaded\<close> is the outcome of \<open>loadConfig()\<close>, which reads the process
  environment. The result is the exit status: 0 when the \<open>try\<close> block ends, 1 from the
  \<open>catch\<close>. Console output and the two-second pause between the steps change
  neither the client nor the requests.
\<close>

definition main_try ::
  "runtime \<Rightarrow> exchange \<Rightarrow> exn + AppConfig \<Rightarrow> world \<Rightarrow> (exn + unit) \<times> world" where
  "main_try rt ex loaded w =
     (case loaded of
        Inl e \<Rightarrow> (Inl e, w)
      | Inr config \<Rightarrow>
          (case validateConfig config of
             Inl e \<Rightarrow> (Inl e, w)
           | Inr _ \<Rightarrow>
               (case new_KrakenClient (now ex) (kraken config) w of
                  (Inl e, w') \<Rightarrow> (Inl e, w')
                | (Inr client, w') \<Rightarrow>
                    (case await (checkAndSell rt ex (client, w'))
                            (\<lambda>_ s. checkAndWithdraw rt ex config s) of
                       (r, _, w'') \<Rightarrow> (r, w'')))))"

definition main :: "runtime \<Rightarrow> exchange \<Rightarrow> exn + AppConfig \<Rightarrow> world \<Rightarrow> nat \<times> world" where
  "main rt ex loaded w =
     (case main_try rt ex loaded w of
        (Inl e, w') \<Rightarrow> (1, w')
      | (Inr _, w') \<Rightarrow> (0, w'))"

section \<open>The conversions as specified\<close>

text \<open>
  The two conversions in the words of the specification, to compare the code with.
  A decimal string is made of decimal digits and at most one decimal point.
  \<open>spec_parse\<close>: split on the decimal point, a missing fractional part is the empty
  string, a missing integer part is \<open>"0"\<close>; pad the fraction with zeros on the right to
  \<open>scale\<close> digits, cut it to \<open>scale\<close> digits, and read integer part and fraction as one
  integer. \<open>spec_format\<close>: render with at least \<open>scale + 1\<close> digits, split off the last
  \<open>scale\<close> digits as the fraction, write \<open>"0"\<close> for an empty integer part.
\<close>

definition is_decimal_string :: "string \<Rightarrow> bool" where
  "is_decimal_string value =
     (list_all (\<lambda>c. is_digit 10 c \<or> c = CHR ''.'') value
      \<and> length (filter (\<lambda>c. c = CHR ''.'') value) \<le> 1)"

definition spec_parse :: "string \<Rightarrow> nat \<Rightarrow> int" where
  "spec_parse value scale =
     (let integer_part = takeWhile (\<lambda>c. c \<noteq> CHR ''.'') value;
          rest = dropWhile (\<lambda>c. c \<noteq> CHR ''.'') value;
          fractional_part = (if rest = [] then [] else tl rest);
          padded = fractional_part @ replicate (scale - length fractional_part) CHR ''0'';
          truncated = take scale padded
      in digits_value 10 ((if integer_part = [] then ''0'' else integer_part) @ truncated))"

definition spec_format :: "int \<Rightarrow> nat \<Rightarrow> string" where
  "spec_format units scale =
     (let rendered = digits units;
          str = replicate (scale + 1 - length rendered) CHR ''0'' @ rendered;
          integer_part = take (length str - scale) str;
          fractional_part = drop (length str - scale) str
      in (if integer_part = [] then ''0'' else integer_part) @ ''.'' @ fractional_part)"

section \<open>Notions of the claims and a runtime for examples\<close>

text \<open>
  When the data handed to the signer is a string or an object, and when it holds a
  nonce: an object with a defined \<open>nonce\<close> property, or a string that parses to such an
  object.
\<close>

definition string_or_object :: "jsdata \<Rightarrow> bool" where
  "string_or_object data = (case data of Obj _ \<Rightarrow> True | Prim (JStr _) \<Rightarrow> True | Prim _ \<Rightarrow> False)"

definition has_nonce :: "runtime \<Rightarrow> jsdata \<Rightarrow> bool" where
  "has_nonce rt data =
     (case data of
        Obj obj \<Rightarrow> obj_get obj ''nonce'' \<noteq> JUndefined
      | Prim (JStr str) \<Rightarrow>
          (case JSON_parse rt str of
             Some (Obj obj) \<Rightarrow> obj_get obj ''nonce'' \<noteq> JUndefined
           | _ \<Rightarrow> False)
      | Prim _ \<Rightarrow> False)"

text \<open>Two states of a client with the same key, secret and base URL.\<close>

definition same_credentials :: "KrakenClient \<Rightarrow> KrakenClient \<Rightarrow> bool" where
  "same_credentials a b =
     (this_apiKey a = this_apiKey b \<and> this_secret a = this_secret b
      \<and> this_baseUrl a = this_baseUrl b)"

text \<open>
  The request \<open>request\<close> makes for a payload without one-time password, and the two
  requests \<open>main\<close> makes with it: the market order selling a volume of USDC for USD and
  the withdrawal of an amount of USD to a key.
\<close>

definition private_post :: "runtime \<Rightarrow> KrakenClient \<Rightarrow> string \<Rightarrow> object \<Rightarrow> http_request" where
  "private_post rt this endpoint payload =
     \<lparr>url = this_baseUrl this @ endpoint, init_method = POST,
      init_headers =
        [(''API-Key'', this_apiKey this),
         (''API-Sign'', sign_encoded rt endpoint
            (js_String (obj_get payload ''nonce'') @ stringify rt payload) (this_secret this)),
         (''Content-Type'', ''application/x-www-form-urlencoded'')],
      init_body = Some (stringify rt payload)\<rparr>"

definition sell_order :: "runtime \<Rightarrow> KrakenClient \<Rightarrow> string \<Rightarrow> int \<Rightarrow> http_request" where
  "sell_order rt this volume nonce =
     private_post rt this ''/0/private/AddOrder''
       [(''type'', JStr ''sell''), (''ordertype'', JStr ''market''), (''pair'', JStr ''USDCUSD''),
        (''volume'', JStr volume), (''nonce'', JNum nonce)]"

definition withdrawal :: "runtime \<Rightarrow> KrakenClient \<Rightarrow> string \<Rightarrow> string \<Rightarrow> int \<Rightarrow> http_request" where
  "withdrawal rt this key amount nonce =
     private_post rt this ''/0/private/Withdraw''
       [(''asset'', JStr ''USD''), (''key'', JStr key), (''amount'', JStr amount),
        (''nonce'', JNum nonce)]"

text \<open>
  A runtime for the examples: each function writes its name around its arguments, the
  form encoding writes \<open>key=value\<close> pairs joined by \<open>&\<close> (no character of the examples
  needs a percent escape), and \<open>JSON.parse\<close> knows three texts.
\<close>

definition form_encode :: "object \<Rightarrow> string" where
  "form_encode obj = join ''&'' (map (\<lambda>(k, v). k @ ''='' @ js_String v) obj)"

definition example_runtime :: runtime where
  "example_runtime =
     \<lparr>sha256 = (\<lambda>s. ''sha256('' @ s @ '')''),
      hmac_sha512 = (\<lambda>k m. ''hmac('' @ k @ '','' @ m @ '')''),
      base64_decode = (\<lambda>s. ''decode('' @ s @ '')''),
      base64_encode = (\<lambda>s. ''base64('' @ s @ '')''),
      stringify = form_encode,
      JSON_parse = (\<lambda>s. if s = ''null'' then Some (Prim JNull)
                         else if s = ''{}'' then Some (Obj [])
                         else if s = ''{'' @ [CHR 0x22] @ ''nonce'' @ [CHR 0x22] @ '':5}''
                         then Some (Obj [(''nonce'', JNum 5)])
                         else None)\<rparr>"

definition example_client :: KrakenClient where
  "example_client = \<lparr>this_apiKey = ''key'', this_secret = ''c2VjcmV0'',
                       this_baseUrl = ''https://api.kraken.com'', nonceCounter = 1000\<rparr>"

definition example_world :: world where
  "example_world = \<lparr>ticks = 0, sent = []\<rparr>"

definition respond :: "nat \<Rightarrow> string \<Rightarrow> string \<Rightarrow> string list \<Rightarrow> 'a option \<Rightarrow> 'a fetch" where
  "respond code reason txt errs res =
     (\<lambda>k req. Inr \<lparr>status = code, statusText = reason, response_text = txt,
                    json = Inr \<lparr>error = Some errs, result = res\<rparr>\<rparr>)"

text \<open>An exchange whose clock stands still at 1000 ms, that reports the two given
  balances, accepts every order and every withdrawal.\<close>

definition example_exchange :: "string \<Rightarrow> string \<Rightarrow> exchange" where
  "example_exchange usdc zusd =
     \<lparr>now = (\<lambda>k. 1000),
      fetchBalance = respond 200 ''OK'' [] [] (Some [''USDC'' \<mapsto> usdc, ''ZUSD'' \<mapsto> zusd]),
      fetchAddOrder = respond 200 ''OK'' [] []
        (Some \<lparr>descr_order = ''sell'', descr_close = None, txid = Some [''TX1'']\<rparr>),
      fetchWithdraw = respond 200 ''OK'' [] [] (Some \<lparr>refid = ''REF1''\<rparr>)\<rparr>"

definition example_config :: AppConfig where
  "example_config =
     \<lparr>kraken = \<lparr>apiKey = ''key'', secret = ''c2VjcmV0'', baseUrl = None\<rparr>,
      minimumWithdrawalUSD = Finite 10 0, usdWithdrawalKey = ''MyBank''\<rparr>"

text \<open>The same configuration with a minimum of 19.99, the number that \<open>Number("19.99")\<close>
  gives; a clock that stands still; a client whose counter has reached \<open>2^53 - 1\<close>.\<close>

definition cents_config :: AppConfig where
  "cents_config = example_config\<lparr>minimumWithdrawalUSD := double_of_ratio 1999 100\<rparr>"



section \<open>Properties of the decimal conversions\<close>

subsection \<open>Digits\<close>

lemma is_digit_10_iff: "is_digit 10 c \<longleftrightarrow> 48 \<le> (of_char c :: nat) \<and> (of_char c :: nat) \<le> 57"
  by (auto simp: is_digit_def digit_val_def Let_def)

lemma dec_not_ws: "is_digit 10 c \<Longrightarrow> \<not> is_ws c"
  by (auto simp: is_digit_10_iff is_ws_def)

lemma dec_not_special: "is_digit 10 c \<Longrightarrow> c \<notin> set ''xXoObB+-.''"
  by (auto simp: is_digit_10_iff)

lemma digit_char_dec: "d < 10 \<Longrightarrow> is_digit 10 (digit_char d)"
proof -
  assume "d < 10"
  then have "d \<in> {0,1,2,3,4,5,6,7,8,9}" by auto
  then show ?thesis
    by (auto simp: digit_char_def is_digit_10_iff)
qed

lemma digit_char_val: "d < 10 \<Longrightarrow> digit_val (digit_char d) = Some d"
proof -
  assume "d < 10"
  then have "d \<in> {0,1,2,3,4,5,6,7,8,9}" by auto
  then show ?thesis
    by (auto simp: digit_char_def digit_val_def)
qed

lemma digits_dec: "list_all (is_digit 10) (digits n)"
proof (induction n rule: digits.induct)
  case (1 n)
  show ?case
  proof (cases "n < 10")
    case True
    then show ?thesis by (subst digits.simps) (simp add: digit_char_dec)
  next
    case False
    have "nat (n mod 10) < 10" by simp
    with False 1 show ?thesis by (subst digits.simps) (simp add: digit_char_dec)
  qed
qed

lemma digits_nonempty: "digits n \<noteq> []"
  by (subst digits.simps) simp

lemma digits_value_snoc:
  "digits_value r (xs @ [c]) = digits_value r xs * int r + int (the (digit_val c))"
  by (simp add: digits_value_def)

lemma digits_value_digits: "0 \<le> n \<Longrightarrow> digits_value 10 (digits n) = n"
proof (induction n rule: digits.induct)
  case (1 n)
  show ?case
  proof (cases "n < 10")
    case True
    with 1 have "nat n < 10" by simp
    with True 1 show ?thesis
      by (subst digits.simps) (simp add: digits_value_def digit_char_val)
  next
    case False
    have m: "nat (n mod 10) < 10" by simp
    from False 1 have ih: "digits_value 10 (digits (n div 10)) = n div 10" by simp
    from False show ?thesis
      by (subst digits.simps) (simp add: digits_value_snoc ih digit_char_val [OF m])
  qed
qed

lemma zero_dec: "is_digit 10 CHR ''0''"
  by (simp add: is_digit_10_iff)

lemma digits_value_zeros: "digits_value r (replicate k CHR ''0'' @ s) = digits_value r s"
proof -
  have "foldl (\<lambda>acc c. acc * int r + int (the (digit_val c))) 0 (replicate k CHR ''0'') = 0"
    by (induction k) (simp_all add: digit_val_def)
  then show ?thesis by (simp add: digits_value_def)
qed

lemma digits_value_zero_Cons: "digits_value r (CHR ''0'' # s) = digits_value r s"
  using digits_value_zeros [of r 1 s] by simp

lemma trim_dec:
  assumes "list_all (is_digit 10) t"
  shows "trim t = t"
proof (cases t rule: rev_cases)
  case Nil
  then show ?thesis by (simp add: trim_def)
next
  case (snoc ys y)
  with assms have y: "\<not> is_ws y" by (simp add: dec_not_ws)
  have front: "dropWhile is_ws t = t"
  proof (cases t)
    case Nil
    then show ?thesis by simp
  next
    case (Cons x xs)
    with assms have "\<not> is_ws x" by (simp add: dec_not_ws)
    with Cons show ?thesis by simp
  qed
  from y snoc have "dropWhile is_ws (rev t) = rev t" by simp
  with front show ?thesis by (simp add: trim_def)
qed

lemma BigInt_dec:
  assumes "list_all (is_digit 10) t" and "t \<noteq> []"
  shows "BigInt t = Inr (digits_value 10 t)"
proof -
  from assms obtain x xs where t: "t = x # xs" by (cases t) auto
  with assms have x: "is_digit 10 x" by simp
  from t have hd: "hd t \<noteq> CHR ''+''" "hd t \<noteq> CHR ''-''"
    using dec_not_special [OF x] by auto
  have pre: "take 2 t \<notin> set [''0x'', ''0X'', ''0o'', ''0O'', ''0b'', ''0B'']"
  proof (cases xs)
    case Nil
    with t show ?thesis by simp
  next
    case (Cons y ys)
    with t assms have "is_digit 10 y" by simp
    from dec_not_special [OF this] Cons t show ?thesis by auto
  qed
  from pre have p1: "take 2 t \<notin> set [''0x'', ''0X'']" and p2: "take 2 t \<notin> set [''0o'', ''0O'']"
    and p3: "take 2 t \<notin> set [''0b'', ''0B'']" by auto
  have "BigInt t = parse_digits 10 t"
    unfolding BigInt_def Let_def trim_dec [OF assms(1)]
    using assms(2) p1 p2 p3 hd by simp
  with assms show ?thesis by (simp add: parse_digits_def)
qed

lemma BigInt_empty: "BigInt [] = Inr 0"
  by (simp add: BigInt_def trim_def)

lemma split_no_sep: "c \<notin> set xs \<Longrightarrow> split c xs = [xs]"
  by (induction xs) auto

lemma split_at_sep: "c \<notin> set w \<Longrightarrow> split c (w @ c # f) = w # split c f"
  by (induction w) auto

lemma slice_prefix: "slice s 0 (int n) = take n s"
  by (simp add: slice_def slice_index_def Let_def min_def)

lemma parse_no_point:
  assumes "CHR ''.'' \<notin> set w"
  shows "parseDecimalToBigInt w s = BigInt (w @ replicate s CHR ''0'')"
  using assms by (simp add: parseDecimalToBigInt_def split_no_sep padEnd_def slice_prefix)

lemma parse_point:
  assumes "CHR ''.'' \<notin> set w" and "CHR ''.'' \<notin> set f"
  shows "parseDecimalToBigInt (w @ CHR ''.'' # f) s
           = BigInt (w @ take s (f @ replicate (s - length f) CHR ''0''))"
  using assms
  by (simp add: parseDecimalToBigInt_def split_at_sep split_no_sep padEnd_def slice_prefix
           del: take_append)

lemma BigInt_whole_fraction:
  assumes "list_all (is_digit 10) w" and "list_all (is_digit 10) p"
  shows "BigInt (w @ p) = Inr (digits_value 10 ((if w = [] then ''0'' else w) @ p))"
proof (cases "w = []")
  case False
  with assms show ?thesis by (simp add: BigInt_dec)
next
  case True
  show ?thesis
  proof (cases "p = []")
    case True
    with \<open>w = []\<close> show ?thesis by (simp add: BigInt_empty digits_value_def digit_val_def)
  next
    case False
    with \<open>w = []\<close> assms show ?thesis by (simp add: BigInt_dec digits_value_zero_Cons)
  qed
qed

lemma decimal_string_cases:
  assumes "is_decimal_string v"
  obtains (whole) "CHR ''.'' \<notin> set v" "list_all (is_digit 10) v"
    "dropWhile (\<lambda>c. c \<noteq> CHR ''.'') v = []" "takeWhile (\<lambda>c. c \<noteq> CHR ''.'') v = v"
  | (point) w f where "v = w @ CHR ''.'' # f" "CHR ''.'' \<notin> set w" "CHR ''.'' \<notin> set f"
    "list_all (is_digit 10) w" "list_all (is_digit 10) f"
    "takeWhile (\<lambda>c. c \<noteq> CHR ''.'') v = w" "dropWhile (\<lambda>c. c \<noteq> CHR ''.'') v = CHR ''.'' # f"
proof (cases "CHR ''.'' \<in> set v")
  case False
  from assms False have "list_all (is_digit 10) v"
    by (auto simp: is_decimal_string_def list_all_iff)
  moreover from False have "takeWhile (\<lambda>c. c \<noteq> CHR ''.'') v = v"
    by (auto simp: takeWhile_eq_all_conv)
  moreover from False have "dropWhile (\<lambda>c. c \<noteq> CHR ''.'') v = []"
    by (induction v) auto
  ultimately show ?thesis using False whole by blast
next
  case True
  then obtain w f where v: "v = w @ CHR ''.'' # f" and w: "CHR ''.'' \<notin> set w"
    by (auto dest: split_list_first)
  from assms v have "length (filter (\<lambda>c. c = CHR ''.'') f) = 0"
    by (simp add: is_decimal_string_def)
  then have f: "CHR ''.'' \<notin> set f" by (auto simp: filter_empty_conv)
  from assms v w f have "list_all (is_digit 10) w" "list_all (is_digit 10) f"
    by (auto simp: is_decimal_string_def list_all_iff)
  moreover from w have "takeWhile (\<lambda>c. c \<noteq> CHR ''.'') v = w" unfolding v
    by (induction w) auto
  moreover from w have "dropWhile (\<lambda>c. c \<noteq> CHR ''.'') v = CHR ''.'' # f" unfolding v
    by (induction w) auto
  ultimately show ?thesis using v w f point by blast
qed

lemma parse_refines:
  assumes "is_decimal_string v"
  shows "parseDecimalToBigInt v s = Inr (spec_parse v s)"
  using assms
proof (cases v rule: decimal_string_cases)
  case whole
  have z: "list_all (is_digit 10) (replicate s CHR ''0'')"
    by (simp add: list_all_iff zero_dec)
  from whole(1,2) show ?thesis
    unfolding spec_parse_def Let_def whole(3,4)
    by (simp add: parse_no_point BigInt_whole_fraction [OF _ z])
next
  case (point w f)
  have "list_all (is_digit 10) (take s (f @ replicate (s - length f) CHR ''0''))"
    using point(5) by (auto simp: list_all_iff zero_dec dest!: in_set_takeD)
  from BigInt_whole_fraction [OF point(4) this] point(2,3) show ?thesis
    unfolding spec_parse_def Let_def point(6,7) unfolding point(1)
    by (simp add: parse_point del: take_append)
qed

lemma padded_length: "s + 1 \<le> length (padStart (digits u) (s + 1) CHR ''0'')"
  by (simp add: padStart_def)

lemma format_refines:
  assumes "0 \<le> u" and "0 < s"
  shows "bigIntToDecimal u s = spec_format u s"
proof -
  define str where "str = padStart (digits u) (s + 1) CHR ''0''"
  have len: "s + 1 \<le> length str" unfolding str_def by (rule padded_length)
  with assms(2) have 1: "slice str 0 (- int s) = take (length str - s) str"
    by (simp add: slice_def slice_index_def Let_def max_def nat_diff_distrib')
  from len assms(2) have 2: "slice_from str (- int s) = drop (length str - s) str"
    by (simp add: slice_from_def slice_index_def max_def nat_diff_distrib')
  from assms(1) have "bigIntToDecimal u s =
      (if slice str 0 (- int s) = [] then ''0'' else slice str 0 (- int s))
        @ ''.'' @ slice_from str (- int s)"
    by (simp add: bigIntToDecimal_def bigint_toString_def str_def Let_def)
  also have "\<dots> = (if take (length str - s) str = [] then ''0'' else take (length str - s) str)
        @ ''.'' @ drop (length str - s) str"
    by (simp only: 1 2)
  also have "\<dots> = spec_format u s"
    by (simp only: spec_format_def Let_def str_def padStart_def)
  finally show ?thesis .
qed

lemma roundtrip_positive_scale:
  assumes "0 \<le> u" and "0 < s"
  shows "parseDecimalToBigInt (bigIntToDecimal u s) s = Inr u"
proof -
  define str where "str = replicate (s + 1 - length (digits u)) CHR ''0'' @ digits u"
  define w where "w = take (length str - s) str"
  define f where "f = drop (length str - s) str"
  have len: "s + 1 \<le> length str" by (simp add: str_def)
  have dec: "list_all (is_digit 10) str"
    using digits_dec [of u] by (auto simp: str_def list_all_iff zero_dec)
  have wf: "w @ f = str" by (simp add: w_def f_def)
  from len have lf: "length f = s" by (simp add: f_def)
  from len have wne: "w \<noteq> []" by (auto simp: w_def)
  from dec wf have dw: "list_all (is_digit 10) w" and df: "list_all (is_digit 10) f"
    by (metis list_all_append)+
  have nw: "CHR ''.'' \<notin> set w" using dw dec_not_special by (auto simp: list_all_iff)
  have nf: "CHR ''.'' \<notin> set f" using df dec_not_special by (auto simp: list_all_iff)
  have "bigIntToDecimal u s = w @ CHR ''.'' # f"
    using wne by (simp add: format_refines [OF assms] spec_format_def Let_def str_def w_def f_def)
  then have "parseDecimalToBigInt (bigIntToDecimal u s) s = BigInt (w @ f)"
    by (simp add: parse_point [OF nw nf] lf)
  also have "\<dots> = Inr (digits_value 10 str)"
    unfolding wf using len by (intro BigInt_dec [OF dec]) auto
  also have "digits_value 10 str = u"
    by (simp add: str_def digits_value_zeros digits_value_digits [OF assms(1)])
  finally show ?thesis .
qed

subsection \<open>Claims on parsing and formatting\<close>

text \<open>
  C7. On every decimal string and at every scale, \<open>parseDecimalToBigInt\<close> returns what
  the specified procedure returns: split on the decimal point, empty string for a
  missing fraction and \<open>"0"\<close> for a missing integer part, zero-pad the fraction on the
  right to the scale and cut it there without rounding, read the two parts as one
  integer. In particular \<open>parse("366.14886400", 8) = 36614886400\<close>,
  \<open>parse("0.00000000", 8) = 0\<close> and \<open>parse("10.50", 2) = 1050\<close>.
\<close>

theorem parseDecimalToBigInt_as_specified:
  "(is_decimal_string v \<longrightarrow> parseDecimalToBigInt v s = Inr (spec_parse v s))
   \<and> parseDecimalToBigInt ''366.14886400'' 8 = Inr 36614886400
   \<and> parseDecimalToBigInt ''0.00000000'' 8 = Inr 0
   \<and> parseDecimalToBigInt ''10.50'' 2 = Inr 1050"
proof -
  have "parseDecimalToBigInt ''366.14886400'' 8 = Inr 36614886400" by code_simp
  moreover have "parseDecimalToBigInt ''0.00000000'' 8 = Inr 0" by code_simp
  moreover have "parseDecimalToBigInt ''10.50'' 2 = Inr 1050" by code_simp
  ultimately show ?thesis using parse_refines by blast
qed

theorem parseDecimalToBigInt_as_specified_witness:
  "is_decimal_string ''.5129'' \<and> spec_parse ''.5129'' 2 = 51
   \<and> parseDecimalToBigInt ''.5129'' 2 = Inr 51"
proof -
  have d: "is_decimal_string ''.5129''" by code_simp
  have v: "spec_parse ''.5129'' 2 = 51" by code_simp
  from parseDecimalToBigInt_as_specified [of "''.5129''" 2] d v show ?thesis by simp
qed

text \<open>
  C8. \<open>bigIntToDecimal\<close> is specified to split off the last \<open>scale\<close> digits of the
  zero-padded rendering. The code does so at every scale above 0 (lemma
  \<open>format_refines\<close>) and there \<open>format(36614886400, 8) = "366.14886400"\<close> and
  \<open>format(1050, 2) = "10.50"\<close>. At scale 0 the two slices use the index \<open>-0\<close>, which is
  \<open>0\<close>: the integer part comes out empty and is replaced by \<open>"0"\<close>, the whole rendering
  becomes the fraction. Five units at scale 0 are formatted as \<open>"0.5"\<close>, where the
  specified result is \<open>"5."\<close>.
\<close>

theorem bigIntToDecimal_scale_zero:
  "bigIntToDecimal 5 0 = ''0.5'' \<and> spec_format 5 0 = ''5.''
   \<and> bigIntToDecimal 36614886400 8 = ''366.14886400''
   \<and> bigIntToDecimal 1050 2 = ''10.50''"
proof -
  have "bigIntToDecimal 5 0 = ''0.5''" by code_simp
  moreover have "spec_format 5 0 = ''5.''" by code_simp
  moreover have "bigIntToDecimal 36614886400 8 = ''366.14886400''" by code_simp
  moreover have "bigIntToDecimal 1050 2 = ''10.50''" by code_simp
  ultimately show ?thesis by blast
qed

text \<open>
  C2. The round-trip law \<open>parse(format(u, s), s) = u\<close> holds at every scale above 0
  (lemma \<open>roundtrip_positive_scale\<close>). At scale 0 it fails through the formatting of
  C8: five units are formatted as \<open>"0.5"\<close>, which parses back to 0 at scale 0.
\<close>

theorem roundtrip_scale_zero:
  "parseDecimalToBigInt (bigIntToDecimal 5 0) 0 = Inr 0
   \<and> parseDecimalToBigInt (bigIntToDecimal 5 0) 0 \<noteq> Inr 5"
proof -
  have "parseDecimalToBigInt (bigIntToDecimal 5 0) 0 = Inr 0" by code_simp
  then show ?thesis by simp
qed

section \<open>Properties of the signer and the client\<close>

subsection \<open>Integers stored in numbers\<close>

lemma pow2_pos: "0 < pow2 k"
  by (simp add: pow2_def)

lemma pow2_Suc: "0 \<le> k \<Longrightarrow> pow2 (k + 1) = 2 * pow2 k"
  by (simp add: pow2_def nat_add_distrib)

lemma bitlen_nonneg: "0 \<le> bitlen n"
proof (induction n rule: bitlen.induct)
  case (1 n)
  then show ?case by (subst bitlen.simps) simp
qed

lemma bitlen_pos: "0 < n \<Longrightarrow> 0 < bitlen n"
  using bitlen_nonneg [of "n div 2"] by (subst bitlen.simps) simp

lemma bitlen_bounds: "0 < p \<Longrightarrow> pow2 (bitlen p - 1) \<le> p \<and> p < pow2 (bitlen p)"
proof (induction p rule: bitlen.induct)
  case (1 n)
  show ?case
  proof (cases "n = 1")
    case True
    have "bitlen 1 = 1" by code_simp
    with True show ?thesis by (simp add: pow2_def)
  next
    case False
    with 1(2) have h: "0 < n div 2" by simp
    let ?b = "bitlen (n div 2)"
    from 1(1) 1(2) h have ih: "pow2 (?b - 1) \<le> n div 2" "n div 2 < pow2 ?b" by simp_all
    from bitlen_pos [OF h] have bp: "0 \<le> ?b - 1" by simp
    from 1(2) have b: "bitlen n = 1 + ?b" by (subst bitlen.simps) simp
    from pow2_Suc [OF bp] have p1: "pow2 ?b = 2 * pow2 (?b - 1)" by simp
    from pow2_Suc [OF bitlen_nonneg [of "n div 2"]] have p2: "pow2 (1 + ?b) = 2 * pow2 ?b"
      by (simp add: add.commute)
    from ih p1 p2 show ?thesis unfolding b by simp linarith
  qed
qed

lemma pow2_mono_rev: "0 \<le> a \<Longrightarrow> 0 \<le> b \<Longrightarrow> pow2 a < pow2 b \<Longrightarrow> a < b"
  by (simp add: pow2_def)

lemma round_half_even_one: "round_half_even x 1 = x"
  by (simp add: round_half_even_def)

lemma double_of_integer_small:
  assumes "0 < x" and "x < 9007199254740992"
  shows "\<exists>k. 0 \<le> k \<and> double_of_ratio x 1 = Finite (x * pow2 k) (- k)"
proof -
  have b1: "bitlen 1 = 1" by code_simp
  let ?d = "bitlen x - 1"
  from bitlen_pos [OF assms(1)] have d0: "0 \<le> ?d" by simp
  from bitlen_bounds [OF assms(1)] have lo: "pow2 ?d \<le> x" by simp
  have "pow2 ?d < pow2 53" using lo assms(2) by (simp add: pow2_def)
  from pow2_mono_rev [OF d0 _ this] have d52: "?d \<le> 52" by simp
  have u: "max (?d - 52) (- 1074) = ?d - 52" using d0 by simp
  have "double_of_ratio x 1 = Finite (x * pow2 (52 - ?d)) (?d - 52)"
    using assms(1) d0 lo d52
    by (simp add: double_of_ratio_def b1 Let_def u round_half_even_one)
  with d52 show ?thesis by (intro exI [of _ "52 - ?d"]) simp
qed

lemma round_integer_small:
  assumes "\<bar>n\<bar> < 9007199254740992"
  shows "round_integer n = n"
proof (cases "n = 0")
  case True
  then show ?thesis by (simp add: round_integer_def double_of_ratio_def pow2_def)
next
  case False
  then have "0 < \<bar>n\<bar>" by simp
  from double_of_integer_small [OF this assms] obtain k where
    k: "0 \<le> k" "double_of_ratio \<bar>n\<bar> 1 = Finite (\<bar>n\<bar> * pow2 k) (- k)" by blast
  show ?thesis
  proof (cases "k = 0")
    case True
    with k show ?thesis by (simp add: round_integer_def pow2_def mult_sgn_abs)
  next
    case False
    with k have "round_integer n = sgn n * (\<bar>n\<bar> * pow2 k div pow2 k)"
      by (simp add: round_integer_def)
    also have "\<dots> = n" using pow2_pos [of k] by (simp add: mult_sgn_abs)
    finally show ?thesis .
  qed
qed

lemma round_integer_exact:
  assumes "\<bar>n\<bar> \<le> 9007199254740992"
  shows "round_integer n = n"
proof -
  have "round_integer 9007199254740992 = 9007199254740992" by code_simp
  moreover have "round_integer (- 9007199254740992) = - 9007199254740992" by code_simp
  moreover from assms have "\<bar>n\<bar> < 9007199254740992 \<or> n = 9007199254740992 \<or> n = - 9007199254740992"
    by auto
  ultimately show ?thesis using round_integer_small by auto
qed

subsection \<open>Nonces\<close>

lemma generateNonce_step:
  "generateNonce clk (this, w) =
     ((if clk (ticks w) > nonceCounter this then clk (ticks w)
       else round_integer (nonceCounter this + 1)),
      this\<lparr>nonceCounter := (if clk (ticks w) > nonceCounter this then clk (ticks w)
                               else round_integer (nonceCounter this + 1))\<rparr>,
      w\<lparr>ticks := Suc (ticks w)\<rparr>)"
  by (simp add: generateNonce_def Date_now_def)

lemma generateNonce_safe:
  assumes "\<bar>nonceCounter this\<bar> < 9007199254740992"
  shows "generateNonce clk (this, w) =
     ((if clk (ticks w) > nonceCounter this then clk (ticks w) else nonceCounter this + 1),
      this\<lparr>nonceCounter := (if clk (ticks w) > nonceCounter this then clk (ticks w)
                               else nonceCounter this + 1)\<rparr>,
      w\<lparr>ticks := Suc (ticks w)\<rparr>)"
proof -
  from assms have "\<bar>nonceCounter this + 1\<bar> \<le> 9007199254740992" by simp
  then have "round_integer (nonceCounter this + 1) = nonceCounter this + 1"
    by (rule round_integer_exact)
  then show ?thesis by (simp add: generateNonce_step)
qed





subsection \<open>Payloads and signatures\<close>

lemma obj_get_set_same: "obj_get (obj_set obj k v) k = v"
proof (cases "k \<in> set (map fst obj)")
  case False
  then have "map_of obj k = None" by (simp add: map_of_eq_None_iff)
  with False show ?thesis by (simp add: obj_get_def obj_set_def map_add_def)
next
  case True
  have "k \<in> set (map fst obj) \<Longrightarrow>
        map_of (map (\<lambda>(k', v'). if k' = k then (k', v) else (k', v')) obj) k = Some v"
    by (induction obj) auto
  with True show ?thesis by (simp add: obj_get_def obj_set_def)
qed

lemma obj_get_set_other: "k' \<noteq> k \<Longrightarrow> obj_get (obj_set obj k v) k' = obj_get obj k'"
proof -
  assume ne: "k' \<noteq> k"
  have "map_of (map (\<lambda>(a, b). if a = k then (a, v) else (a, b)) obj) k' = map_of obj k'"
    using ne by (induction obj) auto
  with ne show ?thesis
    by (auto simp add: obj_get_def obj_set_def map_add_def split: option.split)
qed

lemma build_payload_nonce: "obj_get (build_payload options nonce) ''nonce'' = JNum nonce"
  by (simp add: build_payload_def Let_def obj_get_set_same obj_get_set_other split: option.split)

text \<open>
  C1. For every path, every payload object whose \<open>nonce\<close> field holds an integer and
  every secret, the signature is the base64 rendering of the HMAC-SHA512, under the
  decoded secret, of the path followed by the raw SHA256 digest of the decimal digits of
  the nonce followed by the form encoding of the whole payload, nonce field included.
\<close>

theorem signature_formula:
  assumes "obj_get payload ''nonce'' = JNum n"
  shows "generateKrakenSignature rt urlPath (Obj payload) sk =
           Inr (base64_encode rt (hmac_sha512 rt (base64_decode rt sk)
                  (urlPath @ sha256 rt (bigint_toString n @ stringify rt payload))))"
  using assms by (simp add: generateKrakenSignature_def sign_encoded_def js_String_def)

theorem signature_formula_witness:
  "obj_get [(''pair'', JStr ''USDCUSD''), (''nonce'', JNum 1001)] ''nonce'' = JNum 1001
   \<and> generateKrakenSignature example_runtime ''/0/private/AddOrder''
         (Obj [(''pair'', JStr ''USDCUSD''), (''nonce'', JNum 1001)]) ''c2VjcmV0''
       = Inr ''base64(hmac(decode(c2VjcmV0),/0/private/AddOrdersha256(1001pair=USDCUSD&nonce=1001)))''"
proof -
  have g: "obj_get [(''pair'', JStr ''USDCUSD''), (''nonce'', JNum 1001)] ''nonce'' = JNum 1001"
    by code_simp
  have e: "base64_encode example_runtime (hmac_sha512 example_runtime
             (base64_decode example_runtime ''c2VjcmV0'')
             (''/0/private/AddOrder'' @ sha256 example_runtime (bigint_toString 1001
                @ stringify example_runtime [(''pair'', JStr ''USDCUSD''), (''nonce'', JNum 1001)])))
           = ''base64(hmac(decode(c2VjcmV0),/0/private/AddOrdersha256(1001pair=USDCUSD&nonce=1001)))''"
    by code_simp
  from signature_formula [OF g, of example_runtime "''/0/private/AddOrder''" "''c2VjcmV0''"] g e
  show ?thesis by simp
qed

text \<open>
  C9. \<open>generateKrakenSignature\<close> returns a signature when the data holds a nonce and
  raises an exception, never a network error, when it does not. The exception is the
  function's own \<open>Error\<close> when an object or a parsed JSON object has no nonce and when
  the data is neither a string nor an object.
\<close>

theorem signing_errors:
  "(has_nonce rt data \<longrightarrow> (\<exists>sig. generateKrakenSignature rt urlPath data sk = Inr sig))
   \<and> (\<not> has_nonce rt data \<longrightarrow>
        (\<exists>e. generateKrakenSignature rt urlPath data sk = Inl e \<and> e \<noteq> NetworkError))
   \<and> (data = Obj obj \<and> obj_get obj ''nonce'' = JUndefined \<longrightarrow>
        generateKrakenSignature rt urlPath data sk = Inl (Error ''Nonce is required in data object''))
   \<and> (data = Prim (JStr str) \<and> JSON_parse rt str = Some (Obj obj)
          \<and> obj_get obj ''nonce'' = JUndefined \<longrightarrow>
        generateKrakenSignature rt urlPath data sk = Inl (Error ''Nonce is required in data''))
   \<and> (\<not> string_or_object data \<longrightarrow>
        generateKrakenSignature rt urlPath data sk
          = Inl (Error ''Invalid data type: expected string or object''))"
proof (intro conjI impI)
  assume "has_nonce rt data"
  then show "\<exists>sig. generateKrakenSignature rt urlPath data sk = Inr sig"
    by (auto simp: has_nonce_def generateKrakenSignature_def get_nonce_def
             split: jsdata.splits jsval.splits option.splits)
next
  assume "\<not> has_nonce rt data"
  then show "\<exists>e. generateKrakenSignature rt urlPath data sk = Inl e \<and> e \<noteq> NetworkError"
    by (auto simp: has_nonce_def generateKrakenSignature_def get_nonce_def
             split: jsdata.splits jsval.splits option.splits)
next
  assume "data = Obj obj \<and> obj_get obj ''nonce'' = JUndefined"
  then show "generateKrakenSignature rt urlPath data sk
               = Inl (Error ''Nonce is required in data object'')"
    by (simp add: generateKrakenSignature_def)
next
  assume "data = Prim (JStr str) \<and> JSON_parse rt str = Some (Obj obj)
            \<and> obj_get obj ''nonce'' = JUndefined"
  then show "generateKrakenSignature rt urlPath data sk = Inl (Error ''Nonce is required in data'')"
    by (simp add: generateKrakenSignature_def get_nonce_def)
next
  assume "\<not> string_or_object data"
  then show "generateKrakenSignature rt urlPath data sk
               = Inl (Error ''Invalid data type: expected string or object'')"
    by (auto simp: string_or_object_def generateKrakenSignature_def
             split: jsdata.splits jsval.splits)
qed

theorem signing_errors_witness:
  "has_nonce example_runtime (Obj [(''nonce'', JNum 5)])
   \<and> (\<exists>sig. generateKrakenSignature example_runtime ''/p'' (Obj [(''nonce'', JNum 5)]) ''k'' = Inr sig)
   \<and> \<not> has_nonce example_runtime (Prim (JStr ''null''))
   \<and> (\<exists>e. generateKrakenSignature example_runtime ''/p'' (Prim (JStr ''null'')) ''k'' = Inl e
            \<and> e \<noteq> NetworkError)
   \<and> generateKrakenSignature example_runtime ''/p'' (Obj []) ''k''
       = Inl (Error ''Nonce is required in data object'')
   \<and> generateKrakenSignature example_runtime ''/p'' (Prim (JStr ''{}'')) ''k''
       = Inl (Error ''Nonce is required in data'')
   \<and> generateKrakenSignature example_runtime ''/p'' (Prim (JNum 5)) ''k''
       = Inl (Error ''Invalid data type: expected string or object'')"
proof -
  have h1: "has_nonce example_runtime (Obj [(''nonce'', JNum 5)])" by code_simp
  have h2: "\<not> has_nonce example_runtime (Prim (JStr ''null''))" by code_simp
  have h3: "obj_get [] ''nonce'' = JUndefined" by code_simp
  have h4: "JSON_parse example_runtime ''{}'' = Some (Obj [])" by code_simp
  have h5: "\<not> string_or_object (Prim (JNum 5))" by code_simp
  note t = signing_errors [where rt = example_runtime and urlPath = "''/p''" and sk = "''k''"]
  from t [where data = "Obj [(''nonce'', JNum 5)]"] h1
  have 1: "\<exists>sig. generateKrakenSignature example_runtime ''/p'' (Obj [(''nonce'', JNum 5)]) ''k'' = Inr sig"
    by blast
  from t [where data = "Prim (JStr ''null'')"] h2
  have 2: "\<exists>e. generateKrakenSignature example_runtime ''/p'' (Prim (JStr ''null'')) ''k'' = Inl e
            \<and> e \<noteq> NetworkError"
    by blast
  from t [where data = "Obj []" and obj = "[]"] h3
  have 3: "generateKrakenSignature example_runtime ''/p'' (Obj []) ''k''
       = Inl (Error ''Nonce is required in data object'')"
    by blast
  from t [where data = "Prim (JStr ''{}'')" and obj = "[]" and str = "''{}''"] h3 h4
  have 4: "generateKrakenSignature example_runtime ''/p'' (Prim (JStr ''{}'')) ''k''
       = Inl (Error ''Nonce is required in data'')"
    by blast
  from t [where data = "Prim (JNum 5)"] h5
  have 5: "generateKrakenSignature example_runtime ''/p'' (Prim (JNum 5)) ''k''
       = Inl (Error ''Invalid data type: expected string or object'')"
    by blast
  from h1 h2 1 2 3 4 5 show ?thesis by blast
qed

subsection \<open>The request\<close>

lemma prepare_request_eq:
  assumes "generateNonce clk s = (nonce, this, w)"
  shows "prepare_request rt clk endpoint options s =
     (Inr \<lparr>url = this_baseUrl this @ endpoint,
           init_method = (case request_method options of None \<Rightarrow> POST | Some m \<Rightarrow> m),
           init_headers =
             [(''API-Key'', this_apiKey this),
              (''API-Sign'', sign_encoded rt endpoint
                 (bigint_toString nonce @ stringify rt (build_payload options nonce))
                 (this_secret this)),
              (''Content-Type'', ''application/x-www-form-urlencoded'')],
           init_body = (if (case request_method options of None \<Rightarrow> POST | Some m \<Rightarrow> m) = POST
                        then Some (stringify rt (build_payload options nonce)) else None)\<rparr>,
      this, w)"
  using assms
  by (simp add: prepare_request_def Let_def generateKrakenSignature_def build_payload_nonce
        js_String_def)

lemma request_eq:
  assumes "prepare_request rt clk endpoint options s = (Inr req, this, w)"
  shows "request rt clk fetch endpoint options s =
           (unwrap_response (fetch (length (sent w)) req), this, w\<lparr>sent := sent w @ [req]\<rparr>)"
  using assms by (simp add: request_def do_fetch_def)

text \<open>
  C10. In every call of \<open>request\<close> the payload carries the nonce the client has just
  generated, whatever \<open>nonce\<close> the caller's body held. The signature in the
  \<open>API-Sign\<close> header is computed from this payload, the body of a POST is the form
  encoding of the same payload (a GET sends no body), and exactly this request is handed
  to \<open>fetch\<close>.
\<close>

theorem request_payload_nonce:
  assumes "generateNonce clk s = (nonce, this, w)"
    and "payload = build_payload options nonce"
    and "meth = (case request_method options of None \<Rightarrow> POST | Some m \<Rightarrow> m)"
    and "req = \<lparr>url = this_baseUrl this @ endpoint, init_method = meth,
            init_headers =
              [(''API-Key'', this_apiKey this),
               (''API-Sign'', sign_encoded rt endpoint
                  (bigint_toString nonce @ stringify rt payload) (this_secret this)),
               (''Content-Type'', ''application/x-www-form-urlencoded'')],
            init_body = (if meth = POST then Some (stringify rt payload) else None)\<rparr>"
  shows "obj_get payload ''nonce'' = JNum nonce
    \<and> generateKrakenSignature rt endpoint (Obj payload) (this_secret this)
        = Inr (sign_encoded rt endpoint (bigint_toString nonce @ stringify rt payload)
                 (this_secret this))
    \<and> prepare_request rt clk endpoint options s = (Inr req, this, w)
    \<and> snd (request rt clk fetch endpoint options s) = (this, w\<lparr>sent := sent w @ [req]\<rparr>)"
proof -
  have n: "obj_get payload ''nonce'' = JNum nonce"
    unfolding assms(2) by (rule build_payload_nonce)
  then have g: "generateKrakenSignature rt endpoint (Obj payload) (this_secret this)
        = Inr (sign_encoded rt endpoint (bigint_toString nonce @ stringify rt payload)
                 (this_secret this))"
    by (simp add: generateKrakenSignature_def js_String_def)
  have p: "prepare_request rt clk endpoint options s = (Inr req, this, w)"
    unfolding assms(2,3,4) by (rule prepare_request_eq [OF assms(1)])
  from n g p request_eq [OF p, of fetch] show ?thesis by simp
qed

theorem request_payload_nonce_witness:
  "generateNonce (\<lambda>k. 1000) (example_client, example_world)
     = (1001, example_client\<lparr>nonceCounter := 1001\<rparr>, example_world\<lparr>ticks := 1\<rparr>)
   \<and> build_payload \<lparr>request_method = None,
                      body = Some [(''nonce'', JStr ''7''), (''asset'', JStr ''USD'')],
                      otp = None\<rparr> 1001
       = [(''nonce'', JNum 1001), (''asset'', JStr ''USD'')]
   \<and> map init_body (sent (snd (snd (request example_runtime (\<lambda>k. 1000)
         (respond 200 ''OK'' [] [] (Some ())) ''/0/private/Withdraw''
         \<lparr>request_method = None, body = Some [(''nonce'', JStr ''7''), (''asset'', JStr ''USD'')],
          otp = None\<rparr> (example_client, example_world)))))
       = [Some ''nonce=1001&asset=USD'']
   \<and> generateKrakenSignature example_runtime ''/0/private/Withdraw''
         (Obj [(''nonce'', JNum 1001), (''asset'', JStr ''USD'')]) ''c2VjcmV0''
       = Inr ''base64(hmac(decode(c2VjcmV0),/0/private/Withdrawsha256(1001nonce=1001&asset=USD)))''"
proof -
  let ?opts = "\<lparr>request_method = None,
                 body = Some [(''nonce'', JStr ''7''), (''asset'', JStr ''USD'')], otp = None\<rparr>"
  have g: "generateNonce (\<lambda>k. 1000) (example_client, example_world)
     = (1001, example_client\<lparr>nonceCounter := 1001\<rparr>, example_world\<lparr>ticks := 1\<rparr>)"
    by (simp add: generateNonce_safe example_client_def example_world_def)
  have b: "build_payload ?opts 1001 = [(''nonce'', JNum 1001), (''asset'', JStr ''USD'')]"
    by code_simp
  have e: "sign_encoded example_runtime ''/0/private/Withdraw''
             (bigint_toString 1001 @ ''nonce=1001&asset=USD'') ''c2VjcmV0''
           = ''base64(hmac(decode(c2VjcmV0),/0/private/Withdrawsha256(1001nonce=1001&asset=USD)))''"
    by code_simp
  have f: "stringify example_runtime [(''nonce'', JNum 1001), (''asset'', JStr ''USD'')]
           = ''nonce=1001&asset=USD''"
    by code_simp
  have k: "this_secret (example_client\<lparr>nonceCounter := 1001\<rparr>) = ''c2VjcmV0''"
    by (simp add: example_client_def)
  have sw: "sent example_world = []"
    by (simp add: example_world_def)
  from request_payload_nonce [where rt = example_runtime and endpoint = "''/0/private/Withdraw''"
         and options = ?opts and fetch = "respond 200 ''OK'' [] [] (Some ())", OF g refl refl refl]
  show ?thesis
    unfolding b k by (simp add: g b e f sw)
qed

text \<open>
  C4. Once \<open>fetch\<close> has resolved to a response: a status outside 200 to 299 makes the
  call fail with an error whose message holds the status code and the response text; a
  2xx status with a non-empty \<open>error\<close> array makes it fail with an error holding the
  error strings joined by a comma and a space; a 2xx status with no error returns the
  \<open>result\<close> field of the envelope.
\<close>

theorem request_response_contract:
  assumes "prepare_request rt clk endpoint options s = (Inr req, this, w)"
    and "fetch (length (sent w)) req = Inr response"
  shows "(\<not> (200 \<le> status response \<and> status response \<le> 299) \<longrightarrow>
           fst (request rt clk fetch endpoint options s)
             = Inl (Error (''Kraken API HTTP error: '' @ digits (int (status response)) @ '' ''
                           @ statusText response @ '' - '' @ response_text response)))
    \<and> (200 \<le> status response \<and> status response \<le> 299 \<and> json response = Inr data
          \<and> error data = Some errs \<and> errs \<noteq> [] \<longrightarrow>
           fst (request rt clk fetch endpoint options s)
             = Inl (Error (''Kraken API error: '' @ join '', '' errs)))
    \<and> (200 \<le> status response \<and> status response \<le> 299 \<and> json response = Inr data
          \<and> (error data = None \<or> error data = Some []) \<longrightarrow>
           fst (request rt clk fetch endpoint options s) = Inr (result data))"
  unfolding request_eq [OF assms(1)] assms(2)
  by (auto simp: unwrap_response_def ok_def)

theorem request_response_contract_witness:
  "fst (request example_runtime (\<lambda>k. 1000)
          (respond 500 ''Internal Server Error'' ''boom'' [] (None :: nat option))
          ''/0/private/Balance'' no_options (example_client, example_world))
     = Inl (Error ''Kraken API HTTP error: 500 Internal Server Error - boom'')
   \<and> fst (request example_runtime (\<lambda>k. 1000)
          (respond 200 ''OK'' [] [''EGeneral:Invalid arguments'', ''EAPI:Invalid nonce''] (Some (1 :: nat)))
          ''/0/private/Balance'' no_options (example_client, example_world))
     = Inl (Error ''Kraken API error: EGeneral:Invalid arguments, EAPI:Invalid nonce'')
   \<and> fst (request example_runtime (\<lambda>k. 1000)
          (respond 200 ''OK'' [] [] (Some (42 :: nat)))
          ''/0/private/Balance'' no_options (example_client, example_world))
     = Inr (Some 42)"
proof -
  have g: "generateNonce (\<lambda>k. 1000) (example_client, example_world)
     = (1001, example_client\<lparr>nonceCounter := 1001\<rparr>, example_world\<lparr>ticks := 1\<rparr>)"
    by (simp add: generateNonce_safe example_client_def example_world_def)
  from prepare_request_eq [OF g, of example_runtime "''/0/private/Balance''" no_options]
  obtain req where p: "prepare_request example_runtime (\<lambda>k. 1000) ''/0/private/Balance'' no_options
      (example_client, example_world)
      = (Inr req, example_client\<lparr>nonceCounter := 1001\<rparr>, example_world\<lparr>ticks := 1\<rparr>)"
    by blast
  have d: "digits 500 = ''500''" by code_simp
  have j: "join '', '' [''EGeneral:Invalid arguments'', ''EAPI:Invalid nonce'']
             = ''EGeneral:Invalid arguments, EAPI:Invalid nonce''"
    by code_simp
  let ?r1 = "\<lparr>status = 500, statusText = ''Internal Server Error'', response_text = ''boom'',
              json = Inr \<lparr>error = Some [], result = (None :: nat option)\<rparr>\<rparr>"
  let ?r2 = "\<lparr>status = 200, statusText = ''OK'', response_text = [],
              json = Inr \<lparr>error = Some [''EGeneral:Invalid arguments'', ''EAPI:Invalid nonce''],
                         result = Some (1 :: nat)\<rparr>\<rparr>"
  let ?r3 = "\<lparr>status = 200, statusText = ''OK'', response_text = [],
              json = Inr \<lparr>error = Some [], result = Some (42 :: nat)\<rparr>\<rparr>"
  have f1: "respond 500 ''Internal Server Error'' ''boom'' [] (None :: nat option)
              (length (sent (example_world\<lparr>ticks := 1\<rparr>))) req = Inr ?r1"
    by (simp add: respond_def)
  have f2: "respond 200 ''OK'' [] [''EGeneral:Invalid arguments'', ''EAPI:Invalid nonce'']
              (Some (1 :: nat)) (length (sent (example_world\<lparr>ticks := 1\<rparr>))) req = Inr ?r2"
    by (simp add: respond_def)
  have f3: "respond 200 ''OK'' [] [] (Some (42 :: nat))
              (length (sent (example_world\<lparr>ticks := 1\<rparr>))) req = Inr ?r3"
    by (simp add: respond_def)
  from request_response_contract
         [where fetch = "respond 500 ''Internal Server Error'' ''boom'' [] (None :: nat option)",
          OF p f1] d
  have 1: "fst (request example_runtime (\<lambda>k. 1000)
          (respond 500 ''Internal Server Error'' ''boom'' [] (None :: nat option))
          ''/0/private/Balance'' no_options (example_client, example_world))
     = Inl (Error ''Kraken API HTTP error: 500 Internal Server Error - boom'')"
    by simp
  from request_response_contract
         [where fetch = "respond 200 ''OK'' [] [''EGeneral:Invalid arguments'', ''EAPI:Invalid nonce'']
                           (Some (1 :: nat))"
            and data = "\<lparr>error = Some [''EGeneral:Invalid arguments'', ''EAPI:Invalid nonce''],
                         result = Some 1\<rparr>"
            and errs = "[''EGeneral:Invalid arguments'', ''EAPI:Invalid nonce'']", OF p f2] j
  have 2: "fst (request example_runtime (\<lambda>k. 1000)
          (respond 200 ''OK'' [] [''EGeneral:Invalid arguments'', ''EAPI:Invalid nonce''] (Some (1 :: nat)))
          ''/0/private/Balance'' no_options (example_client, example_world))
     = Inl (Error ''Kraken API error: EGeneral:Invalid arguments, EAPI:Invalid nonce'')"
    by simp
  from request_response_contract
         [where fetch = "respond 200 ''OK'' [] [] (Some (42 :: nat))"
            and data = "\<lparr>error = Some [], result = Some 42\<rparr>", OF p f3]
  have 3: "fst (request example_runtime (\<lambda>k. 1000)
          (respond 200 ''OK'' [] [] (Some (42 :: nat)))
          ''/0/private/Balance'' no_options (example_client, example_world))
     = Inr (Some 42)"
    by simp
  from 1 2 3 show ?thesis by blast
qed

section \<open>Properties of the orchestrator\<close>

subsection \<open>What each call sends\<close>

lemma same_credentials_refl: "same_credentials a a"
  by (simp add: same_credentials_def)

lemma same_credentials_trans:
  "same_credentials a b \<Longrightarrow> same_credentials b c \<Longrightarrow> same_credentials a c"
  by (simp add: same_credentials_def)

lemma private_post_credentials:
  "same_credentials a b \<Longrightarrow> private_post rt b endpoint payload = private_post rt a endpoint payload"
  by (simp add: same_credentials_def private_post_def)

lemma generateNonce_credentials:
  assumes "generateNonce clk s = (nonce, this, w)"
  shows "same_credentials (fst s) this \<and> sent w = sent (snd s)"
proof -
  obtain this0 w0 where s: "s = (this0, w0)" by (cases s)
  from assms show ?thesis
    unfolding s by (auto simp: generateNonce_step same_credentials_def)
qed

lemma request_effect:
  assumes "request rt clk fetch endpoint options s = (r, s')"
  shows "same_credentials (fst s) (fst s')
         \<and> (\<exists>req. sent (snd s') = sent (snd s) @ [req]
                   \<and> url req = this_baseUrl (fst s) @ endpoint)"
proof -
  obtain nonce this w where g: "generateNonce clk s = (nonce, this, w)"
    by (cases "generateNonce clk s") auto
  note c = generateNonce_credentials [OF g]
  note p = prepare_request_eq [OF g, of rt endpoint options]
  from request_eq [OF p, of fetch] assms c show ?thesis
    by (auto simp: same_credentials_def)
qed

lemma request_post:
  assumes "request rt clk fetch endpoint \<lparr>request_method = None, body = Some b, otp = None\<rparr> s
             = (r, s')"
  shows "same_credentials (fst s) (fst s')
         \<and> (\<exists>nonce. sent (snd s') = sent (snd s)
                @ [private_post rt (fst s) endpoint (obj_set b ''nonce'' (JNum nonce))])"
proof -
  let ?opts = "\<lparr>request_method = None, body = Some b, otp = None\<rparr>"
  obtain nonce this w where g: "generateNonce clk s = (nonce, this, w)"
    by (cases "generateNonce clk s") auto
  note c = generateNonce_credentials [OF g]
  have b: "build_payload ?opts nonce = obj_set b ''nonce'' (JNum nonce)"
    by (simp add: build_payload_def)
  have "prepare_request rt clk endpoint ?opts s
          = (Inr (private_post rt this endpoint (obj_set b ''nonce'' (JNum nonce))), this, w)"
    unfolding prepare_request_eq [OF g, of rt endpoint ?opts] b
    by (simp add: private_post_def obj_get_set_same js_String_def)
  from request_eq [OF this, of fetch] assms c
  have "s' = (this, w\<lparr>sent := sent w
                @ [private_post rt this endpoint (obj_set b ''nonce'' (JNum nonce))]\<rparr>)"
    by simp
  with c private_post_credentials [of "fst s" this rt] show ?thesis by auto
qed

lemma getAssetBalance_effect:
  assumes "getAssetBalance rt ex asset s = (r, s')"
  shows "same_credentials (fst s) (fst s')
         \<and> (\<exists>req. sent (snd s') = sent (snd s) @ [req]
                   \<and> url req = this_baseUrl (fst s) @ ''/0/private/Balance'')"
proof -
  obtain r0 s0 where b: "getBalance rt ex s = (r0, s0)" by (cases "getBalance rt ex s")
  from assms b have "s' = s0"
    by (auto simp: getAssetBalance_def await_def split: sum.splits option.splits)
  with request_effect [OF b [unfolded getBalance_def]] show ?thesis by simp
qed

lemma sellUSDCToUSD_sends:
  assumes "sellUSDCToUSD rt ex volume [] s = (r, s')"
  shows "same_credentials (fst s) (fst s')
         \<and> (\<exists>nonce. sent (snd s') = sent (snd s) @ [sell_order rt (fst s) volume nonce])"
  using request_post [OF assms [unfolded sellUSDCToUSD_def placeOrder_def obj_spread_def foldl.simps]]
  by (simp add: sell_order_def obj_set_def)

lemma withdrawToMercury_sends:
  assumes "withdrawToMercury rt ex amount [] s = (r, s')"
  shows "same_credentials (fst s) (fst s')
         \<and> (\<exists>nonce. sent (snd s') = sent (snd s)
                @ [withdrawal rt (fst s) ''Mercury'' amount nonce])"
  using request_post [OF assms [unfolded withdrawToMercury_def withdraw_def Let_def
                                  obj_spread_def foldl.simps]]
  by (simp add: withdrawal_def obj_set_def)

lemma url_sell_order: "url (sell_order rt this volume nonce) = this_baseUrl this @ ''/0/private/AddOrder''"
  by (simp add: sell_order_def private_post_def)

lemma url_withdrawal: "url (withdrawal rt this key amount nonce) = this_baseUrl this @ ''/0/private/Withdraw''"
  by (simp add: withdrawal_def private_post_def)

subsection \<open>What each step sends\<close>

text \<open>Steps 1 and 2 send the balance query and, exactly when the balance is positive, the
  order that sells the whole balance.\<close>

lemma checkAndSell_run:
  assumes "getAssetBalance rt ex ''USDC'' s = (r, s1)"
  shows "same_credentials (fst s) (fst (snd (checkAndSell rt ex s)))
    \<and> (\<exists>reqB. url reqB = this_baseUrl (fst s) @ ''/0/private/Balance''
         \<and> (if \<exists>b n. r = Inr b \<and> parseDecimalToBigInt b 8 = Inr n \<and> 0 < n
             then \<exists>b nonce. r = Inr b
                    \<and> sent (snd (snd (checkAndSell rt ex s)))
                        = sent (snd s) @ [reqB, sell_order rt (fst s) b nonce]
             else sent (snd (snd (checkAndSell rt ex s))) = sent (snd s) @ [reqB]))"
proof -
  from getAssetBalance_effect [OF assms] obtain reqB where
    cred: "same_credentials (fst s) (fst s1)" and
    sent1: "sent (snd s1) = sent (snd s) @ [reqB]" and
    urlB: "url reqB = this_baseUrl (fst s) @ ''/0/private/Balance''" by blast
  have stop: ?thesis
    if "snd (checkAndSell rt ex s) = s1"
      and "\<not> (\<exists>b n. r = Inr b \<and> parseDecimalToBigInt b 8 = Inr n \<and> 0 < n)"
    using that cred sent1 urlB by auto
  show ?thesis
  proof (cases r)
    case (Inl e)
    with assms show ?thesis by (intro stop) (simp_all add: checkAndSell_def await_def)
  next
    case (Inr b)
    show ?thesis
    proof (cases "parseDecimalToBigInt b 8")
      case (Inl e)
      with assms Inr show ?thesis by (intro stop) (simp_all add: checkAndSell_def await_def)
    next
      case n: (Inr n)
      show ?thesis
      proof (cases "0 < n")
        case False
        with assms Inr n show ?thesis by (intro stop) (simp_all add: checkAndSell_def await_def)
      next
        case True
        obtain r2 s2 where so: "sellUSDCToUSD rt ex b [] s1 = (r2, s2)"
          by (cases "sellUSDCToUSD rt ex b [] s1")
        from sellUSDCToUSD_sends [OF so] obtain nonce where
          cred2: "same_credentials (fst s1) (fst s2)" and
          sent2: "sent (snd s2) = sent (snd s1) @ [sell_order rt (fst s1) b nonce]" by blast
        from assms Inr n True so have fin: "snd (checkAndSell rt ex s) = s2"
          by (simp add: checkAndSell_def await_def split: sum.splits option.splits)
        have same: "sell_order rt (fst s1) b nonce = sell_order rt (fst s) b nonce"
          unfolding sell_order_def by (rule private_post_credentials [OF cred])
        from same_credentials_trans [OF cred cred2] have "same_credentials (fst s) (fst s2)" .
        moreover have "sent (snd s2) = sent (snd s) @ [reqB, sell_order rt (fst s) b nonce]"
          by (simp add: sent2 sent1 same)
        ultimately show ?thesis using Inr n True urlB unfolding fin by auto
      qed
    qed
  qed
qed

lemma checkAndSell_zero:
  assumes "getAssetBalance rt ex ''USDC'' s = (Inr ''0.00000000'', s1)"
  shows "checkAndSell rt ex s = (Inr (), s1)"
proof -
  have "parseDecimalToBigInt ''0.00000000'' 8 = Inr 0" by code_simp
  with assms show ?thesis by (simp add: checkAndSell_def await_def)
qed

text \<open>Step 3 sends the balance query and, exactly when the minimum in base units is an
  integer that the balance reaches, the withdrawal of the whole balance.\<close>

lemma checkAndWithdraw_run:
  assumes "getAssetBalance rt ex ''ZUSD'' s = (q, s1)"
  shows "\<exists>reqB. url reqB = this_baseUrl (fst s) @ ''/0/private/Balance''
         \<and> (if \<exists>b n m. q = Inr b \<and> parseDecimalToBigInt b 4 = Inr n
                   \<and> minimumWithdrawal config = Inr m \<and> m \<le> n
             then \<exists>b nonce. q = Inr b
                    \<and> sent (snd (snd (checkAndWithdraw rt ex config s)))
                        = sent (snd s) @ [reqB, withdrawal rt (fst s) ''Mercury'' b nonce]
             else sent (snd (snd (checkAndWithdraw rt ex config s))) = sent (snd s) @ [reqB])"
proof -
  from getAssetBalance_effect [OF assms] obtain reqB where
    cred: "same_credentials (fst s) (fst s1)" and
    sent1: "sent (snd s1) = sent (snd s) @ [reqB]" and
    urlB: "url reqB = this_baseUrl (fst s) @ ''/0/private/Balance''" by blast
  have stop: ?thesis
    if "snd (checkAndWithdraw rt ex config s) = s1"
      and "\<not> (\<exists>b n m. q = Inr b \<and> parseDecimalToBigInt b 4 = Inr n
                   \<and> minimumWithdrawal config = Inr m \<and> m \<le> n)"
    using that sent1 urlB by auto
  show ?thesis
  proof (cases q)
    case (Inl e)
    with assms show ?thesis by (intro stop) (simp_all add: checkAndWithdraw_def await_def)
  next
    case (Inr b)
    show ?thesis
    proof (cases "parseDecimalToBigInt b 4")
      case (Inl e)
      with assms Inr show ?thesis by (intro stop) (simp_all add: checkAndWithdraw_def await_def)
    next
      case n: (Inr n)
      show ?thesis
      proof (cases "minimumWithdrawal config")
        case (Inl e)
        with assms Inr n show ?thesis
          by (intro stop) (simp_all add: checkAndWithdraw_def await_def)
      next
        case m: (Inr m)
        show ?thesis
        proof (cases "m \<le> n")
          case False
          with assms Inr n m show ?thesis
            by (intro stop) (simp_all add: checkAndWithdraw_def await_def)
        next
          case True
          obtain r2 s2 where wd: "withdrawToMercury rt ex b [] s1 = (r2, s2)"
            by (cases "withdrawToMercury rt ex b [] s1")
          from withdrawToMercury_sends [OF wd] obtain nonce where
            sent2: "sent (snd s2) = sent (snd s1) @ [withdrawal rt (fst s1) ''Mercury'' b nonce]"
            by blast
          from assms Inr n m True wd have fin: "snd (checkAndWithdraw rt ex config s) = s2"
            by (simp add: checkAndWithdraw_def await_def split: sum.splits option.splits)
          have same: "withdrawal rt (fst s1) ''Mercury'' b nonce
                        = withdrawal rt (fst s) ''Mercury'' b nonce"
            unfolding withdrawal_def by (rule private_post_credentials [OF cred])
          have "sent (snd s2) = sent (snd s) @ [reqB, withdrawal rt (fst s) ''Mercury'' b nonce]"
            by (simp add: sent2 sent1 same)
          then show ?thesis using Inr n m True urlB unfolding fin by auto
        qed
      qed
    qed
  qed
qed

lemma main_try_steps:
  assumes "validateConfig config = Inr ()"
    and "new_KrakenClient (now ex) (kraken config) w = (Inr client, w')"
  shows "main_try rt ex (Inr config) w =
           (case checkAndSell rt ex (client, w') of
              (Inl e, s) \<Rightarrow> (Inl e, snd s)
            | (Inr u, s) \<Rightarrow> (fst (checkAndWithdraw rt ex config s),
                              snd (snd (checkAndWithdraw rt ex config s))))"
  using assms
  by (auto simp: main_try_def await_def split: sum.splits prod.splits)

lemma main_scenarios:
  "map url (sent (snd (main example_runtime (example_exchange ''0.00000000'' ''5.0000'')
                        (Inr example_config) example_world)))
     = [''https://api.kraken.com/0/private/Balance'', ''https://api.kraken.com/0/private/Balance'']"
  "map url (sent (snd (main example_runtime (example_exchange ''100.00000000'' ''50.0000'')
                        (Inr example_config) example_world)))
     = [''https://api.kraken.com/0/private/Balance'', ''https://api.kraken.com/0/private/AddOrder'',
        ''https://api.kraken.com/0/private/Balance'', ''https://api.kraken.com/0/private/Withdraw'']"
  by code_simp+

subsection \<open>The run of main\<close>

text \<open>
  In a run of \<open>main\<close> with a valid configuration the requests sent after the client is
  made are: the USDC balance query; the order selling the whole balance, exactly when
  that balance parses at scale 8 to an amount above zero; and, when the first two steps
  end normally, the USD balance query followed by the withdrawal of the whole balance
  to \<open>Mercury\<close>, exactly when \<open>BigInt(config.minimumWithdrawalUSD * 10_000)\<close> is an
  integer and the balance parses at scale 4 to an amount that reaches it.
\<close>

lemma orchestrator_run:
  assumes "validateConfig config = Inr ()"
    and "new_KrakenClient (now ex) (kraken config) w = (Inr client, w1)"
    and "getAssetBalance rt ex ''USDC'' (client, w1) = (r, s1)"
    and "checkAndSell rt ex (client, w1) = (u, s2)"
    and "getAssetBalance rt ex ''ZUSD'' s2 = (q, s3)"
    and "main_try rt ex (Inr config) w = (res, w')"
  defines "sells \<equiv> \<exists>b n. r = Inr b \<and> parseDecimalToBigInt b 8 = Inr n \<and> 0 < n"
    and "reaches \<equiv> \<exists>b n m. q = Inr b \<and> parseDecimalToBigInt b 4 = Inr n
                      \<and> minimumWithdrawal config = Inr m \<and> m \<le> n"
  shows "\<exists>balance1 balance2 usdc usd nonce1 nonce2.
           url balance1 = this_baseUrl client @ ''/0/private/Balance''
         \<and> url balance2 = this_baseUrl client @ ''/0/private/Balance''
         \<and> (sells \<longrightarrow> r = Inr usdc) \<and> (reaches \<longrightarrow> q = Inr usd)
         \<and> (r = Inr ''0.00000000'' \<longrightarrow> u = Inr ())
         \<and> sent w' = sent w1
              @ [balance1] @ (if sells then [sell_order rt client usdc nonce1] else [])
              @ (if u = Inr () then [balance2] else [])
              @ (if u = Inr () \<and> reaches then [withdrawal rt client ''Mercury'' usd nonce2]
                 else [])"
proof -
  let ?s = "(client, w1)"
  note cs = checkAndSell_run [OF assms(3), unfolded assms(4) snd_conv fst_conv, folded sells_def]
  from cs have cred: "same_credentials client (fst s2)" by (rule conjunct1)
  from cs have "\<exists>reqB. url reqB = this_baseUrl client @ ''/0/private/Balance''
         \<and> (if sells
             then \<exists>b nonce. r = Inr b
                    \<and> sent (snd s2) = sent w1 @ [reqB, sell_order rt client b nonce]
             else sent (snd s2) = sent w1 @ [reqB])"
    by (rule conjunct2)
  then obtain balance1 where
    url1: "url balance1 = this_baseUrl client @ ''/0/private/Balance''" and
    S: "if sells
        then \<exists>b nonce. r = Inr b
               \<and> sent (snd s2) = sent w1 @ [balance1, sell_order rt client b nonce]
        else sent (snd s2) = sent w1 @ [balance1]"
    by blast
  have "\<exists>usdc nonce1. (sells \<longrightarrow> r = Inr usdc)
          \<and> sent (snd s2) = sent w1 @ [balance1]
                @ (if sells then [sell_order rt client usdc nonce1] else [])"
  proof (cases sells)
    case True
    with S obtain b nonce where "r = Inr b"
      "sent (snd s2) = sent w1 @ [balance1, sell_order rt client b nonce]" by auto
    with True show ?thesis by (intro exI [of _ b] exI [of _ nonce]) simp
  next
    case False
    with S show ?thesis by simp
  qed
  then obtain usdc nonce1 where
    usdc: "sells \<longrightarrow> r = Inr usdc" and
    sent2: "sent (snd s2) = sent w1 @ [balance1]
              @ (if sells then [sell_order rt client usdc nonce1] else [])"
    by blast
  have zero: "r = Inr ''0.00000000'' \<longrightarrow> u = Inr ()"
    using checkAndSell_zero [of rt ex ?s s1] assms(3,4) by auto
  show ?thesis
  proof (cases u)
    case (Inl e)
    with main_try_steps [OF assms(1,2), of rt] assms(4,6) have "w' = snd s2" by simp
    with sent2 have tr: "sent w' = sent w1
              @ [balance1] @ (if sells then [sell_order rt client usdc nonce1] else [])"
      by simp
    have usd: "reaches \<longrightarrow> q = Inr (projr q)" by (auto simp: reaches_def)
    show ?thesis
      apply (rule exI [of _ balance1], rule exI [of _ balance1], rule exI [of _ usdc])
      apply (rule exI [of _ "projr q"], rule exI [of _ nonce1], rule exI [of _ 0])
      using url1 usdc usd zero tr Inl by simp
  next
    case (Inr v)
    then have uok: "u = Inr ()" by simp
    with main_try_steps [OF assms(1,2), of rt] assms(4,6)
    have w': "w' = snd (snd (checkAndWithdraw rt ex config s2))" by simp
    from cred have base: "this_baseUrl (fst s2) = this_baseUrl client"
      by (simp add: same_credentials_def)
    have same: "withdrawal rt (fst s2) ''Mercury'' b nonce = withdrawal rt client ''Mercury'' b nonce"
      for b nonce
      unfolding withdrawal_def by (rule private_post_credentials [OF cred])
    note cw = checkAndWithdraw_run [OF assms(5), of config, folded reaches_def w',
        unfolded base same]
    then obtain balance2 where
      url2: "url balance2 = this_baseUrl client @ ''/0/private/Balance''" and
      W: "if reaches
          then \<exists>b nonce. q = Inr b
                 \<and> sent w' = sent (snd s2) @ [balance2, withdrawal rt client ''Mercury'' b nonce]
          else sent w' = sent (snd s2) @ [balance2]"
      by blast
    have "\<exists>usd nonce2. (reaches \<longrightarrow> q = Inr usd)
            \<and> sent w' = sent (snd s2) @ [balance2]
                  @ (if reaches then [withdrawal rt client ''Mercury'' usd nonce2] else [])"
    proof (cases reaches)
      case True
      with W obtain b nonce where "q = Inr b"
        "sent w' = sent (snd s2) @ [balance2, withdrawal rt client ''Mercury'' b nonce]" by auto
      with True show ?thesis by (intro exI [of _ b] exI [of _ nonce]) simp
    next
      case False
      with W show ?thesis by simp
    qed
    then obtain usd nonce2 where
      usd: "reaches \<longrightarrow> q = Inr usd" and
      sent3: "sent w' = sent (snd s2) @ [balance2]
                @ (if reaches then [withdrawal rt client ''Mercury'' usd nonce2] else [])"
      by blast
    from sent2 sent3 uok have tr: "sent w' = sent w1
              @ [balance1] @ (if sells then [sell_order rt client usdc nonce1] else [])
              @ (if u = Inr () then [balance2] else [])
              @ (if u = Inr () \<and> reaches then [withdrawal rt client ''Mercury'' usd nonce2]
                 else [])"
      by simp
    show ?thesis
      apply (rule exI [of _ balance1], rule exI [of _ balance2], rule exI [of _ usdc])
      apply (rule exI [of _ usd], rule exI [of _ nonce1], rule exI [of _ nonce2])
      using url1 url2 usdc usd zero tr by (intro conjI)
  qed
qed

lemma orchestrator_run_requested:
  assumes "validateConfig config = Inr ()"
    and "new_KrakenClient (now ex) (kraken config) w = (Inr client, w1)"
    and "getAssetBalance rt ex ''USDC'' (client, w1) = (r, s1)"
    and "checkAndSell rt ex (client, w1) = (u, s2)"
    and "getAssetBalance rt ex ''ZUSD'' s2 = (q, s3)"
    and "main_try rt ex (Inr config) w = (res, w')"
  shows "(requested ''/0/private/AddOrder'' (client, w1) (client, w')
            \<longleftrightarrow> (\<exists>b n. r = Inr b \<and> parseDecimalToBigInt b 8 = Inr n \<and> 0 < n))
       \<and> (requested ''/0/private/Withdraw'' (client, w1) (client, w')
            \<longleftrightarrow> u = Inr () \<and> (\<exists>b n m. q = Inr b \<and> parseDecimalToBigInt b 4 = Inr n
                                  \<and> minimumWithdrawal config = Inr m \<and> m \<le> n))"
proof -
  from orchestrator_run [OF assms] obtain balance1 balance2 usdc usd nonce1 nonce2
    where u1: "url balance1 = this_baseUrl client @ ''/0/private/Balance''"
      and u2: "url balance2 = this_baseUrl client @ ''/0/private/Balance''"
      and tr: "sent w' = sent w1
         @ [balance1]
         @ (if \<exists>b n. r = Inr b \<and> parseDecimalToBigInt b 8 = Inr n \<and> 0 < n
            then [sell_order rt client usdc nonce1] else [])
         @ (if u = Inr () then [balance2] else [])
         @ (if u = Inr () \<and> (\<exists>b n m. q = Inr b \<and> parseDecimalToBigInt b 4 = Inr n
                                  \<and> minimumWithdrawal config = Inr m \<and> m \<le> n)
            then [withdrawal rt client ''Mercury'' usd nonce2] else [])"
    by blast
  show ?thesis
    by (simp add: requested_def tr u1 u2 url_sell_order url_withdrawal)
qed

text \<open>
  C5. The first half of the claim holds: a sell order for the whole balance is sent
  exactly when the USDC balance parses to an amount above zero, and on \<open>"0.00000000"\<close>
  none is sent and the run goes on (lemma \<open>orchestrator_run\<close>). The second half needs
  the configured minimum times 10000 to be an integer: the product is formed in floating
  point and handed to \<open>BigInt\<close>. With a minimum of 19.99 the product is
  \<open>199899.99999999997\<close>, \<open>BigInt\<close> raises a \<open>RangeError\<close> and the run ends with status 1
  after the second balance query. No withdrawal is sent, although the balance
  \<open>"50.0000"\<close> is 500000 base units and the minimum at scale 4 is 199900.
\<close>

theorem minimum_with_cents_aborts:
  "minimumWithdrawalUSD cents_config = Finite 5626684784446013 (- 48)
   \<and> validateConfig cents_config = Inr ()
   \<and> number_times (minimumWithdrawalUSD cents_config) (Finite 10000 0)
       = Finite 6868511699763199 (- 35)
   \<and> minimumWithdrawal cents_config = Inl RangeError
   \<and> parseDecimalToBigInt ''19.99'' 4 = Inr 199900
   \<and> parseDecimalToBigInt ''50.0000'' 4 = Inr 500000
   \<and> fst (main example_runtime (example_exchange ''0.00000000'' ''50.0000'')
             (Inr cents_config) example_world) = 1
   \<and> map url (sent (snd (main example_runtime (example_exchange ''0.00000000'' ''50.0000'')
                            (Inr cents_config) example_world)))
       = [''https://api.kraken.com/0/private/Balance'',
          ''https://api.kraken.com/0/private/Balance'']"
proof -
  have "minimumWithdrawalUSD cents_config = Finite 5626684784446013 (- 48)" by code_simp
  moreover have "validateConfig cents_config = Inr ()" by code_simp
  moreover have "number_times (minimumWithdrawalUSD cents_config) (Finite 10000 0)
       = Finite 6868511699763199 (- 35)" by code_simp
  moreover have "minimumWithdrawal cents_config = Inl RangeError" by code_simp
  moreover have "parseDecimalToBigInt ''19.99'' 4 = Inr 199900" by code_simp
  moreover have "parseDecimalToBigInt ''50.0000'' 4 = Inr 500000" by code_simp
  moreover have "fst (main example_runtime (example_exchange ''0.00000000'' ''50.0000'')
             (Inr cents_config) example_world) = 1" by code_simp
  moreover have "map url (sent (snd (main example_runtime
        (example_exchange ''0.00000000'' ''50.0000'') (Inr cents_config) example_world)))
       = [''https://api.kraken.com/0/private/Balance'',
          ''https://api.kraken.com/0/private/Balance'']" by code_simp
  ultimately show ?thesis by blast
qed

subsection \<open>The destination of the withdrawal\<close>

lemma withdrawToMercury_body:
  assumes "generateNonce (now ex) s = (nonce, this, w)"
  shows "snd (withdrawToMercury rt ex amount [] s) =
     (this, w\<lparr>sent := sent w @
        [\<lparr>url = this_baseUrl this @ ''/0/private/Withdraw'', init_method = POST,
          init_headers =
            [(''API-Key'', this_apiKey this),
             (''API-Sign'', sign_encoded rt ''/0/private/Withdraw''
                (bigint_toString nonce @ stringify rt
                   [(''asset'', JStr ''USD''), (''key'', JStr ''Mercury''),
                    (''amount'', JStr amount), (''nonce'', JNum nonce)])
                (this_secret this)),
             (''Content-Type'', ''application/x-www-form-urlencoded'')],
          init_body = Some (stringify rt
                   [(''asset'', JStr ''USD''), (''key'', JStr ''Mercury''),
                    (''amount'', JStr amount), (''nonce'', JNum nonce)])\<rparr>]\<rparr>)"
proof -
  let ?opts = "\<lparr>request_method = None,
                 body = Some [(''asset'', JStr ''USD''), (''key'', JStr ''Mercury''),
                              (''amount'', JStr amount)], otp = None\<rparr>"
  have b: "build_payload ?opts nonce = [(''asset'', JStr ''USD''), (''key'', JStr ''Mercury''),
                    (''amount'', JStr amount), (''nonce'', JNum nonce)]"
    by (simp add: build_payload_def obj_set_def)
  note p = prepare_request_eq [OF assms, of rt "''/0/private/Withdraw''" ?opts]
  from request_eq [OF p, of "fetchWithdraw ex"] show ?thesis
    by (simp add: withdrawToMercury_def withdraw_def obj_spread_def b)
qed

text \<open>
  C6. The configuration must hold a withdrawal key (\<open>validateConfig\<close> rejects an empty
  one), but no step reads it: \<open>withdrawToMercury\<close> names the key \<open>Mercury\<close> in every
  withdrawal (lemma \<open>withdrawToMercury_body\<close>), for the full balance string. With the
  key \<open>MyBank\<close> configured and a USD balance of \<open>"50.0000"\<close>, the third request of the
  run is the withdrawal with \<open>key=Mercury\<close>.
\<close>

theorem withdrawal_key_is_fixed:
  "usdWithdrawalKey example_config = ''MyBank''
   \<and> validateConfig example_config = Inr ()
   \<and> map init_body (sent (snd (main example_runtime (example_exchange ''0.00000000'' ''50.0000'')
                                  (Inr example_config) example_world)))
       = [Some ''nonce=1001'', Some ''nonce=1002'',
          Some ''asset=USD&key=Mercury&amount=50.0000&nonce=1003'']"
proof -
  have "usdWithdrawalKey example_config = ''MyBank''" by code_simp
  moreover have "validateConfig example_config = Inr ()" by code_simp
  moreover have "map init_body (sent (snd (main example_runtime
        (example_exchange ''0.00000000'' ''50.0000'') (Inr example_config) example_world)))
       = [Some ''nonce=1001'', Some ''nonce=1002'',
          Some ''asset=USD&key=Mercury&amount=50.0000&nonce=1003'']"
    by code_simp
  ultimately show ?thesis by blast
qed


end
